theory Spec2Isabelle
  imports
    Complex_Main
    "HOL-Library.Char_ord"
    "HOL-Library.List_Lexorder"
    "HOL-Library.Multiset"
    "HOL-Library.Sublist"
begin

section \<open>Shared types of the health-monitor package (types.ts)\<close>

text \<open>
  JavaScript numbers that carry ordinals, ports and millisecond clocks are integers in
  every path modelled here; they are \<^typ>\<open>int\<close> (or \<^typ>\<open>nat\<close> for a port).
  Strings are \<^typ>\<open>string\<close>, ordered by character code, which is how the default
  \<^verbatim>\<open>Array.prototype.sort\<close> orders them. An optional field is an \<^typ>\<open>'a option\<close>.
  Record fields that several interfaces share (\<^verbatim>\<open>nodeId\<close>, \<^verbatim>\<open>layer\<close>, ...) carry a
  short prefix naming their interface.
\<close>

datatype LayerName = GL0 | ML0 | CL1 | DL1

fun layerName_str :: "LayerName \<Rightarrow> string" where
  "layerName_str GL0 = ''GL0''"
| "layerName_str ML0 = ''ML0''"
| "layerName_str CL1 = ''CL1''"
| "layerName_str DL1 = ''DL1''"

record LayerConfig =
  lc_name :: LayerName
  lc_port :: nat

record NodeInfo =
  ni_nodeId :: string
  ni_host :: string
  ni_layers :: "LayerConfig list"

record ClusterPeer =
  peer_id :: string
  peer_ip :: "string option"
  peer_state :: string

record NodeClusterView =
  view_nodeId :: string
  view_layer :: LayerName
  view_host :: string
  view_port :: nat
  view_peers :: "ClusterPeer list"
  view_polledAt :: string
  view_error :: "string option"

record ClusterSnapshot =
  snap_layer :: LayerName
  snap_timestamp :: string
  views :: "NodeClusterView list"

datatype HealthCondition =
  HEALTHY | FORK_DETECTED | SNAPSHOT_STALL | NODE_UNREACHABLE | MINORITY_PARTITION

datatype RestartGroup = IndividualNode | FullLayer | FullMetagraph

record HealthEvent =
  condition :: HealthCondition
  layer :: LayerName
  nodeIds :: "string list"
  description :: string
  timestamp :: string
  suggestedAction :: "RestartGroup option"

record OrdinalSnapshot =
  os_nodeId :: string
  os_layer :: LayerName
  os_ordinal :: int
  os_timestamp :: string

section \<open>The stall tracker (snapshot.ts)\<close>

text \<open>
  \<^verbatim>\<open>StallTracker\<close> holds two maps keyed by the string \<^verbatim>\<open>`${nodeId}:${layer}`\<close>. Neither map
  is ever iterated, so each is a partial function. \<^verbatim>\<open>Date.now()\<close> is read once per call
  of \<^verbatim>\<open>update\<close> and is an argument of the model.
\<close>

record StallTracker =
  lastOrdinal :: "string \<rightharpoonup> int"
  lastChanged :: "string \<rightharpoonup> int"

definition newStallTracker :: StallTracker where
  "newStallTracker = \<lparr>lastOrdinal = Map.empty, lastChanged = Map.empty\<rparr>"

definition key :: "string \<Rightarrow> string \<Rightarrow> string" where
  "key nodeId lay = nodeId @ '':'' @ lay"

definition update :: "OrdinalSnapshot \<Rightarrow> int \<Rightarrow> StallTracker \<Rightarrow> bool \<times> StallTracker" where
  "update snap now t =
     (let k = key (os_nodeId snap) (layerName_str (os_layer snap));
          prev = lastOrdinal t k
      in if (case prev of None \<Rightarrow> True | Some p \<Rightarrow> os_ordinal snap > p)
         then (True, t\<lparr>lastOrdinal := (lastOrdinal t)(k \<mapsto> os_ordinal snap),
                        lastChanged := (lastChanged t)(k \<mapsto> now)\<rparr>)
         else (False, t))"

definition staleSecs :: "string \<Rightarrow> string \<Rightarrow> int \<Rightarrow> StallTracker \<Rightarrow> rat option" where
  "staleSecs nodeId lay now t =
     (case lastChanged t (key nodeId lay) of
        None \<Rightarrow> None
      | Some changed \<Rightarrow> Some (of_int (now - changed) / 1000))"

definition lastOrdinalFor :: "string \<Rightarrow> string \<Rightarrow> StallTracker \<Rightarrow> int option" where
  "lastOrdinalFor nodeId lay t = lastOrdinal t (key nodeId lay)"

definition reset :: "StallTracker \<Rightarrow> StallTracker" where
  "reset t = \<lparr>lastOrdinal = Map.empty, lastChanged = Map.empty\<rparr>"

text \<open>A sequence of \<^verbatim>\<open>update\<close> calls, each with the clock reading of its call.\<close>

fun updates :: "(OrdinalSnapshot \<times> int) list \<Rightarrow> StallTracker \<Rightarrow> StallTracker" where
  "updates [] t = t"
| "updates ((snap, now) # rest) t = updates rest (snd (update snap now t))"

section \<open>JavaScript helpers\<close>

text \<open>
  A \<^verbatim>\<open>Map\<close> iterates in insertion order, and \<^verbatim>\<open>set\<close> on a key already present
  keeps the key's position: it is an association list, read with \<^const>\<open>map_of\<close>.
\<close>

fun Map_set :: "'k \<Rightarrow> 'v \<Rightarrow> ('k \<times> 'v) list \<Rightarrow> ('k \<times> 'v) list" where
  "Map_set k v [] = [(k, v)]"
| "Map_set k v ((k', v') # rest) =
     (if k' = k then (k, v) # rest else (k', v') # Map_set k v rest)"

text \<open>\<^verbatim>\<open>Array.prototype.join\<close> on an array of strings.\<close>

fun join :: "string \<Rightarrow> string list \<Rightarrow> string" where
  "join sep [] = []"
| "join sep [x] = x"
| "join sep (x # y # ys) = x @ sep @ join sep (y # ys)"

text \<open>A string used as a condition is true exactly when it is present and not empty.\<close>

fun truthy :: "string option \<Rightarrow> bool" where
  "truthy None = False"
| "truthy (Some s) = (s \<noteq> [])"

text \<open>Decimal text of an integer, as a template literal prints it.\<close>

fun digits :: "nat \<Rightarrow> string" where
  "digits n =
     (if n < 10 then [''0123456789'' ! n]
      else digits (n div 10) @ [''0123456789'' ! (n mod 10)])"

declare digits.simps [simp del]

definition number_str :: "int \<Rightarrow> string" where
  "number_str i = (if i < 0 then ''-'' @ digits (nat (- i)) else digits (nat i))"

section \<open>Cluster polling and fork detection (cluster.ts)\<close>

text \<open>
  What the injected \<^verbatim>\<open>fetchFn\<close> does for a URL: the promise rejects (the model keeps
  \<^verbatim>\<open>String(err)\<close>), or it resolves with an array of peers, or with a value that is not
  an array. \<^verbatim>\<open>new Date().toISOString()\<close> is the argument \<open>nowIso\<close>.
\<close>

datatype FetchResult = Rejects string | ResolvesArray "ClusterPeer list" | ResolvesOther

definition pollNodeCluster ::
  "NodeInfo \<Rightarrow> LayerName \<Rightarrow> (string \<Rightarrow> FetchResult) \<Rightarrow> string \<Rightarrow> NodeClusterView" where
  "pollNodeCluster node lay fetchFn nowIso =
     (case find (\<lambda>l. lc_name l = lay) (ni_layers node) of
        None \<Rightarrow>
          \<lparr>view_nodeId = ni_nodeId node, view_layer = lay, view_host = ni_host node,
           view_port = 0, view_peers = [], view_polledAt = nowIso,
           view_error = Some (''Layer '' @ layerName_str lay @ '' not configured for node ''
                                @ ni_nodeId node)\<rparr>
      | Some layerConfig \<Rightarrow>
          (let url = ''http://'' @ ni_host node @ '':'' @ digits (lc_port layerConfig)
                       @ ''/cluster/info''
           in case fetchFn url of
                ResolvesArray data \<Rightarrow>
                  \<lparr>view_nodeId = ni_nodeId node, view_layer = lay, view_host = ni_host node,
                   view_port = lc_port layerConfig, view_peers = data,
                   view_polledAt = nowIso, view_error = None\<rparr>
              | ResolvesOther \<Rightarrow>
                  \<lparr>view_nodeId = ni_nodeId node, view_layer = lay, view_host = ni_host node,
                   view_port = lc_port layerConfig, view_peers = [],
                   view_polledAt = nowIso, view_error = None\<rparr>
              | Rejects err \<Rightarrow>
                  \<lparr>view_nodeId = ni_nodeId node, view_layer = lay, view_host = ni_host node,
                   view_port = lc_port layerConfig, view_peers = [],
                   view_polledAt = nowIso, view_error = Some err\<rparr>))"

definition pollLayerCluster ::
  "NodeInfo list \<Rightarrow> LayerName \<Rightarrow> (string \<Rightarrow> FetchResult) \<Rightarrow> string \<Rightarrow> ClusterSnapshot" where
  "pollLayerCluster nodes lay fetchFn nowIso =
     \<lparr>snap_layer = lay, snap_timestamp = nowIso,
      views = map (\<lambda>node. pollNodeCluster node lay fetchFn nowIso) nodes\<rparr>"

definition clusterKey :: "NodeClusterView \<Rightarrow> string" where
  "clusterKey view =
     (if truthy (view_error view) then ''ERROR:'' @ view_nodeId view
      else let ids = join '','' (sort (map peer_id (view_peers view)))
           in if ids = [] then ''EMPTY'' else ids)"

record Majority =
  majorityKey :: string
  majorityNodes :: "string list"
  minorityNodes :: "string list"
  unreachable :: "string list"

text \<open>The body of the first loop of \<^verbatim>\<open>findMajority\<close>, for one view.\<close>

definition groupView ::
  "NodeClusterView \<Rightarrow> (string \<times> string list) list \<Rightarrow> (string \<times> string list) list" where
  "groupView view keyGroups =
     (if truthy (view_error view) then keyGroups
      else let k = clusterKey view;
               group = (case map_of keyGroups k of None \<Rightarrow> [] | Some g \<Rightarrow> g)
           in Map_set k (group @ [view_nodeId view]) keyGroups)"

text \<open>
  The body of the loop that looks for the largest group: the entry replaces the best so
  far only when it is strictly longer.
\<close>

definition largerGroup :: "'k \<times> 'a list \<Rightarrow> 'k \<times> 'a list \<Rightarrow> 'k \<times> 'a list" where
  "largerGroup entry best = (if length (snd entry) > length (snd best) then entry else best)"

definition findMajority :: "ClusterSnapshot \<Rightarrow> Majority" where
  "findMajority snapshot =
     (let keyGroups = fold groupView (views snapshot) [];
          unreachable = map view_nodeId (filter (\<lambda>v. truthy (view_error v)) (views snapshot))
      in if length keyGroups = 0
         then \<lparr>majorityKey = ''EMPTY'', majorityNodes = [], minorityNodes = [],
               unreachable = unreachable\<rparr>
         else let best = fold largerGroup keyGroups ([], []);
                  minority = concat (map snd (filter (\<lambda>e. fst e \<noteq> fst best) keyGroups))
              in \<lparr>majorityKey = fst best, majorityNodes = snd best, minorityNodes = minority,
                  unreachable = unreachable\<rparr>)"

definition detectForks :: "ClusterSnapshot \<Rightarrow> HealthEvent list" where
  "detectForks snapshot =
     (let m = findMajority snapshot;
          forkEvents =
            (if length (minorityNodes m) > 0
             then [\<lparr>condition = FORK_DETECTED, layer = snap_layer snapshot,
                    nodeIds = minorityNodes m,
                    description = ''Fork detected on '' @ layerName_str (snap_layer snapshot)
                      @ '': node(s) '' @ join '', '' (minorityNodes m)
                      @ '' are in a minority partition (majority: ''
                      @ join '', '' (majorityNodes m) @ '')'',
                    timestamp = snap_timestamp snapshot,
                    suggestedAction =
                      Some (if length (minorityNodes m) < length (majorityNodes m)
                            then IndividualNode else FullLayer)\<rparr>]
             else []);
          unreachableEvents =
            (if length (unreachable m) > 0
             then [\<lparr>condition = NODE_UNREACHABLE, layer = snap_layer snapshot,
                    nodeIds = unreachable m,
                    description = ''Unreachable node(s) on '' @ layerName_str (snap_layer snapshot)
                      @ '': '' @ join '', '' (unreachable m),
                    timestamp = snap_timestamp snapshot,
                    suggestedAction = Some IndividualNode\<rparr>]
             else [])
      in forkEvents @ unreachableEvents)"

record GL0NodeState =
  gs_nodeId :: string
  gs_ordinal :: int
  gs_hash :: "string option"

definition countOrdinal ::
  "GL0NodeState \<Rightarrow> (int \<times> string list) list \<Rightarrow> (int \<times> string list) list" where
  "countOrdinal s ordinalCount =
     (let nodes = (case map_of ordinalCount (gs_ordinal s) of None \<Rightarrow> [] | Some g \<Rightarrow> g)
      in Map_set (gs_ordinal s) (nodes @ [gs_nodeId s]) ordinalCount)"

definition majorityOrdinalOf :: "GL0NodeState list \<Rightarrow> int" where
  "majorityOrdinalOf states = fst (fold largerGroup (fold countOrdinal states []) (0, []))"

definition detectGL0Fork :: "GL0NodeState list \<Rightarrow> string \<Rightarrow> HealthEvent option" where
  "detectGL0Fork states ts =
     (if length states < 2 then None
      else let majorityOrdinal = majorityOrdinalOf states;
               minority = map gs_nodeId (filter (\<lambda>s. gs_ordinal s \<noteq> majorityOrdinal) states)
           in if length minority = 0 then None
              else Some \<lparr>condition = FORK_DETECTED, layer = GL0, nodeIds = minority,
                         description = ''GL0 fork: node(s) '' @ join '', '' minority
                           @ '' are at divergent ordinals (majority: ''
                           @ number_str majorityOrdinal @ '')'',
                         timestamp = ts, suggestedAction = Some IndividualNode\<rparr>)"

section \<open>The watchdog's detectors (src/conditions) and its tick (index.ts)\<close>

text \<open>
  The watchdog's \<^verbatim>\<open>types.ts\<close>, \<^verbatim>\<open>services/node-api.ts\<close>, \<^verbatim>\<open>restart/orchestrator.ts\<close> and
  \<^verbatim>\<open>conditions/unhealthy-nodes.ts\<close> are not among the sources. The types below are read
  off their uses; \<^verbatim>\<open>getClusterInfo\<close>, \<^verbatim>\<open>getLatestOrdinal\<close>, \<^verbatim>\<open>detectUnhealthyNodes\<close> and
  \<^verbatim>\<open>executeRestart\<close> are arguments of the functions that call them. Log lines are left out.
\<close>

datatype Layer = gl0 | ml0 | cl1 | dl1

fun toUpperCase_layer :: "Layer \<Rightarrow> string" where
  "toUpperCase_layer gl0 = ''GL0''"
| "toUpperCase_layer ml0 = ''ML0''"
| "toUpperCase_layer cl1 = ''CL1''"
| "toUpperCase_layer dl1 = ''DL1''"

record NodeConfig =
  nc_name :: string
  nc_ip :: string

record Config =
  nodes :: "NodeConfig list"
  ports :: "Layer \<Rightarrow> nat"
  snapshotStallMinutes :: int
  healthCheckIntervalSeconds :: int
  restartCooldownMinutes :: int
  maxRestartsPerHour :: int

record ClusterMember =
  cm_id :: string

datatype RestartScope = ScopeNone | ScopeIndividualNode | ScopeFullLayer | ScopeFullMetagraph

record DetectionResult =
  detected :: bool
  dr_condition :: string
  details :: string
  restartScope :: RestartScope
  affectedNodes :: "string list option"
  affectedLayers :: "Layer list option"

text \<open>The em dash of the messages, as its three UTF-8 bytes.\<close>

definition emDash :: string where
  "emDash = [CHR 0xE2, CHR 0x80, CHR 0x94]"

subsection \<open>forked-cluster.ts\<close>

text \<open>
  \<open>sha256Json ids\<close> stands for
  \<^verbatim>\<open>createHash('sha256').update(JSON.stringify(ids)).digest('hex')\<close>.
\<close>

definition hashClusterPOV :: "(string list \<Rightarrow> string) \<Rightarrow> ClusterMember list \<Rightarrow> string" where
  "hashClusterPOV sha256Json members = take 12 (sha256Json (sort (map cm_id members)))"

record Pov =
  pov_ip :: string
  pov_hash :: string
  pov_members :: "ClusterMember list"

record ForkCheck =
  forked :: bool
  fc_minorityNodes :: "string list"

text \<open>
  \<^verbatim>\<open>freq\<close> is a plain object whose keys are \<^verbatim>\<open>'unreachable'\<close> or twelve hexadecimal
  digits, never an array index, so \<^verbatim>\<open>Object.entries\<close> lists them in insertion order.
  The sort by descending count is stable.
\<close>

definition countHash :: "Pov \<Rightarrow> (string \<times> int) list \<Rightarrow> (string \<times> int) list" where
  "countHash p freq =
     Map_set (pov_hash p) ((case map_of freq (pov_hash p) of None \<Rightarrow> 0 | Some c \<Rightarrow> c) + 1) freq"

definition checkLayerFork ::
  "(string \<Rightarrow> nat \<Rightarrow> ClusterMember list) \<Rightarrow> (string list \<Rightarrow> string) \<Rightarrow> Config \<Rightarrow> Layer
     \<Rightarrow> ForkCheck" where
  "checkLayerFork getClusterInfo sha256Json config lay =
     (let port = ports config lay;
          povs = map (\<lambda>node.
                   let members = getClusterInfo (nc_ip node) port
                   in if length members = 0
                      then \<lparr>pov_ip = nc_ip node, pov_hash = ''unreachable'', pov_members = []\<rparr>
                      else \<lparr>pov_ip = nc_ip node, pov_hash = hashClusterPOV sha256Json members,
                            pov_members = members\<rparr>) (nodes config);
          freq = fold countHash povs [];
          majorityHash = (case sort_key (\<lambda>e. - snd e) freq of
                            [] \<Rightarrow> None | e # _ \<Rightarrow> Some (fst e));
          minority = map pov_ip (filter (\<lambda>p. Some (pov_hash p) \<noteq> majorityHash) povs)
      in \<lparr>forked = (length minority > 0), fc_minorityNodes = minority\<rparr>)"

fun forkedLayerLoop ::
  "(string \<Rightarrow> nat \<Rightarrow> ClusterMember list) \<Rightarrow> (string list \<Rightarrow> string) \<Rightarrow> Config \<Rightarrow> Layer list
     \<Rightarrow> DetectionResult" where
  "forkedLayerLoop getClusterInfo sha256Json config [] =
     \<lparr>detected = False, dr_condition = ''ForkedCluster'', details = [],
      restartScope = ScopeNone, affectedNodes = None, affectedLayers = None\<rparr>"
| "forkedLayerLoop getClusterInfo sha256Json config (lay # rest) =
     (let result = checkLayerFork getClusterInfo sha256Json config lay
      in if forked result
         then (let allForked =
                     (int (length (fc_minorityNodes result)) \<ge> int (length (nodes config)) - 1)
               in \<lparr>detected = True, dr_condition = ''ForkedCluster'',
                   details = toUpperCase_layer lay @ '' forked '' @ emDash
                     @ '' minority nodes: '' @ join '', '' (fc_minorityNodes result),
                   restartScope = (if allForked then ScopeFullLayer else ScopeIndividualNode),
                   affectedNodes = Some (fc_minorityNodes result),
                   affectedLayers = Some [lay]\<rparr>)
         else forkedLayerLoop getClusterInfo sha256Json config rest)"

definition detectForkedCluster ::
  "(string \<Rightarrow> nat \<Rightarrow> ClusterMember list) \<Rightarrow> (string list \<Rightarrow> string) \<Rightarrow> Config
     \<Rightarrow> DetectionResult" where
  "detectForkedCluster getClusterInfo sha256Json config =
     forkedLayerLoop getClusterInfo sha256Json config [ml0, cl1, dl1]"

subsection \<open>snapshots-stopped.ts\<close>

text \<open>
  The two module variables are the record \<open>StallState\<close>, passed in and returned. The loop
  over the nodes returns the ordinal it settles on (or \<open>-1\<close>) and the IPs it asked, in the
  order asked. \<^verbatim>\<open>Date.now()\<close> is read once on every path and is the argument \<open>now\<close>;
  \<open>toFixed1\<close> stands for \<^verbatim>\<open>Number.prototype.toFixed(1)\<close>.
\<close>

record StallState =
  lastKnownOrdinal :: int
  lastOrdinalChangeTime :: int

definition initialStallState :: "int \<Rightarrow> StallState" where
  "initialStallState loadTime = \<lparr>lastKnownOrdinal = - 1, lastOrdinalChangeTime = loadTime\<rparr>"

fun firstOrdinal ::
  "(string \<Rightarrow> nat \<Rightarrow> Layer \<Rightarrow> int) \<Rightarrow> nat \<Rightarrow> NodeConfig list \<Rightarrow> int \<times> string list" where
  "firstOrdinal getLatestOrdinal port [] = (- 1, [])"
| "firstOrdinal getLatestOrdinal port (node # rest) =
     (let ordinal = getLatestOrdinal (nc_ip node) port ml0
      in if ordinal \<ge> 0 then (ordinal, [nc_ip node])
         else (fst (firstOrdinal getLatestOrdinal port rest),
               nc_ip node # snd (firstOrdinal getLatestOrdinal port rest)))"

definition notStopped :: "string \<Rightarrow> DetectionResult" where
  "notStopped d =
     \<lparr>detected = False, dr_condition = ''SnapshotsStopped'', details = d,
      restartScope = ScopeNone, affectedNodes = None, affectedLayers = None\<rparr>"

definition detectSnapshotsStopped ::
  "(string \<Rightarrow> nat \<Rightarrow> Layer \<Rightarrow> int) \<Rightarrow> (rat \<Rightarrow> string) \<Rightarrow> int \<Rightarrow> Config \<Rightarrow> StallState
     \<Rightarrow> DetectionResult \<times> StallState" where
  "detectSnapshotsStopped getLatestOrdinal toFixed1 now config st =
     (let currentOrdinal = fst (firstOrdinal getLatestOrdinal (ports config ml0) (nodes config))
      in if currentOrdinal < 0 then (notStopped ''ML0 unreachable'', st)
         else if currentOrdinal \<noteq> lastKnownOrdinal st
         then (notStopped [],
               \<lparr>lastKnownOrdinal = currentOrdinal, lastOrdinalChangeTime = now\<rparr>)
         else (let stalledMinutes = (of_int (now - lastOrdinalChangeTime st) / 60000 :: rat)
               in if stalledMinutes \<ge> of_int (snapshotStallMinutes config)
                  then (\<lparr>detected = True, dr_condition = ''SnapshotsStopped'',
                         details = ''ML0 snapshots stalled at ordinal ''
                           @ number_str currentOrdinal @ '' for '' @ toFixed1 stalledMinutes
                           @ '' minutes'',
                         restartScope = ScopeFullMetagraph,
                         affectedNodes = Some (map nc_ip (nodes config)),
                         affectedLayers = Some [ml0, cl1, dl1]\<rparr>, st)
                  else (notStopped [], st)))"

subsection \<open>index.ts: one health check\<close>

text \<open>
  A detector and \<^verbatim>\<open>executeRestart\<close> act on the state \<open>'w\<close> of everything outside the
  loop; either may throw, which is the result \<open>None\<close> and is caught inside the loop.
  The loop returns the names of the conditions whose \<^verbatim>\<open>detect\<close> it called, in the order
  of the calls, and the state it leaves.
\<close>

fun runConditions ::
  "(DetectionResult \<Rightarrow> 'w \<Rightarrow> bool option \<times> 'w)
     \<Rightarrow> (string \<times> ('w \<Rightarrow> DetectionResult option \<times> 'w)) list \<Rightarrow> 'w \<Rightarrow> string list \<times> 'w" where
  "runConditions executeRestart [] w = ([], w)"
| "runConditions executeRestart ((name, detect) # rest) w =
     (case detect w of
        (None, w1) \<Rightarrow>
          (name # fst (runConditions executeRestart rest w1),
           snd (runConditions executeRestart rest w1))
      | (Some result, w1) \<Rightarrow>
          if detected result
          then (case executeRestart result w1 of
                  (Some True, w2) \<Rightarrow> ([name], w2)
                | (_, w2) \<Rightarrow>
                    (name # fst (runConditions executeRestart rest w2),
                     snd (runConditions executeRestart rest w2)))
          else (name # fst (runConditions executeRestart rest w1),
                snd (runConditions executeRestart rest w1)))"

definition runHealthCheck ::
  "(DetectionResult \<Rightarrow> 'w \<Rightarrow> bool option \<times> 'w)
     \<Rightarrow> ('w \<Rightarrow> DetectionResult option \<times> 'w) \<Rightarrow> ('w \<Rightarrow> DetectionResult option \<times> 'w)
     \<Rightarrow> ('w \<Rightarrow> DetectionResult option \<times> 'w) \<Rightarrow> 'w \<Rightarrow> string list \<times> 'w" where
  "runHealthCheck executeRestart detectForked detectStopped detectUnhealthyNodes w =
     runConditions executeRestart
       [(''ForkedCluster'', detectForked),
        (''SnapshotsStopped'', detectStopped),
        (''UnhealthyNodes'', detectUnhealthyNodes)] w"

text \<open>
  One iteration of the loop, read on its own: whether it ends the health check (the
  detector reported a condition and \<^verbatim>\<open>executeRestart\<close> returned \<^verbatim>\<open>true\<close>), and the state
  it leaves.
\<close>

definition restartPerformed ::
  "(DetectionResult \<Rightarrow> 'w \<Rightarrow> bool option \<times> 'w) \<Rightarrow> ('w \<Rightarrow> DetectionResult option \<times> 'w) \<Rightarrow> 'w
     \<Rightarrow> bool" where
  "restartPerformed executeRestart detect w =
     (case detect w of
        (None, w1) \<Rightarrow> False
      | (Some result, w1) \<Rightarrow> detected result \<and> fst (executeRestart result w1) = Some True)"

definition afterCondition ::
  "(DetectionResult \<Rightarrow> 'w \<Rightarrow> bool option \<times> 'w) \<Rightarrow> ('w \<Rightarrow> DetectionResult option \<times> 'w) \<Rightarrow> 'w
     \<Rightarrow> 'w" where
  "afterCondition executeRestart detect w =
     (case detect w of
        (None, w1) \<Rightarrow> w1
      | (Some result, w1) \<Rightarrow> if detected result then snd (executeRestart result w1) else w1)"

section \<open>The restart orchestrator\<close>

text \<open>
  The watchdog's \<^verbatim>\<open>restart/orchestrator.ts\<close> (\<^verbatim>\<open>executeRestart\<close>, with its cooldown and its
  rate limit) is not among the sources. This section follows section 4.7 of the
  specification instead, over the types of the health-monitor package, which are the
  specification's \<^verbatim>\<open>Node\<close>, \<^verbatim>\<open>Layer\<close>, \<^verbatim>\<open>HealthEvent\<close> and \<^verbatim>\<open>RestartScope\<close>. The waits between
  the steps of a procedure are not modelled: \<open>now\<close> is the clock when \<^verbatim>\<open>execute\<close> is called
  and \<open>finish\<close> the clock when its procedure ends.
\<close>

text \<open>
  Modelled from the spec: the operations of the command port (section 6.2), which
  \<^verbatim>\<open>ssh.ts\<close> would provide.
\<close>

datatype Command =
  Stop string LayerName | StartGenesis string LayerName | StartAndJoin string LayerName string

text \<open>
  Modelled from the spec: the outcome of \<^verbatim>\<open>execute\<close>, \<^verbatim>\<open>Restarted\<close>, \<^verbatim>\<open>Skipped(reason)\<close> or
  \<^verbatim>\<open>Failed(err)\<close>. The specification names the reasons \<open>cooldown\<close> and \<open>rate_limit\<close>; it
  does not say what \<^verbatim>\<open>execute\<close> returns for an event with no suggested action, which
  the model skips with the reason \<open>not_actionable\<close>.
\<close>

datatype SkipReason = cooldown | rate_limit | not_actionable

datatype Outcome = Restarted | Skipped SkipReason | Failed Command

text \<open>Modelled from the spec: the \<^verbatim>\<open>RestartRecord\<close> of section 3.\<close>

datatype RecordOutcome = success | failed | skipped

record RestartRecord =
  rr_scope :: RestartGroup
  rr_layer :: LayerName
  rr_nodeIds :: "string list"
  startedAt :: int
  finishedAt :: int
  rr_outcome :: RecordOutcome

text \<open>
  Modelled from the spec: the state the orchestrator owns. \<open>history\<close> lists the records,
  the most recent first; \<open>invoked\<close> lists every command handed to the command port, the
  oldest first.
\<close>

record Orchestrator =
  history :: "RestartRecord list"
  invoked :: "Command list"

record OrchestratorConfig =
  oc_nodes :: "NodeInfo list"
  oc_restartCooldownMinutes :: int
  oc_maxRestartsPerHour :: int

text \<open>
  Modelled from the spec: the FullLayer procedure. Stop the layer on all nodes; start
  the first configured node as genesis; join each remaining node to it, in configured
  order.
\<close>

definition stopAll :: "NodeInfo list \<Rightarrow> LayerName \<Rightarrow> Command list" where
  "stopAll ns lay = map (\<lambda>n. Stop (ni_host n) lay) ns"

definition startLayer :: "NodeInfo list \<Rightarrow> LayerName \<Rightarrow> Command list" where
  "startLayer ns lay =
     (case ns of
        [] \<Rightarrow> []
      | genesis # rest \<Rightarrow>
          StartGenesis (ni_host genesis) lay
            # map (\<lambda>n. StartAndJoin (ni_host n) lay (ni_host genesis)) rest)"

definition fullLayerProcedure :: "NodeInfo list \<Rightarrow> LayerName \<Rightarrow> Command list" where
  "fullLayerProcedure ns lay = stopAll ns lay @ startLayer ns lay"

text \<open>
  Modelled from the spec: the FullMetagraph procedure. Stop the layers in the order
  \<open>DL1\<close>, \<open>CL1\<close>, \<open>GL0\<close>, \<open>ML0\<close>, then start them in the order \<open>ML0\<close>, \<open>GL0\<close>, \<open>CL1\<close>, \<open>DL1\<close>,
  each as in the FullLayer procedure.
\<close>

definition fullMetagraphProcedure :: "NodeInfo list \<Rightarrow> Command list" where
  "fullMetagraphProcedure ns =
     concat (map (stopAll ns) [DL1, CL1, GL0, ML0])
       @ concat (map (startLayer ns) [ML0, GL0, CL1, DL1])"

text \<open>
  Modelled from the spec: the IndividualNode procedure. The seed is the node of lowest
  ID among the nodes that are not affected; each affected node is stopped and started
  joining the seed. Without a seed the procedure is the FullLayer one.
\<close>

definition individualNodeProcedure ::
  "NodeInfo list \<Rightarrow> LayerName \<Rightarrow> string list \<Rightarrow> Command list" where
  "individualNodeProcedure ns lay targets =
     (case sort_key ni_nodeId (filter (\<lambda>n. ni_nodeId n \<notin> set targets) ns) of
        [] \<Rightarrow> fullLayerProcedure ns lay
      | seed # _ \<Rightarrow>
          concat (map (\<lambda>target. [Stop (ni_host target) lay,
                                 StartAndJoin (ni_host target) lay (ni_host seed)])
                    (filter (\<lambda>n. ni_nodeId n \<in> set targets) ns)))"

text \<open>Modelled from the spec: the dispatch on \<^verbatim>\<open>event.suggestedAction\<close>.\<close>

definition procedureFor :: "NodeInfo list \<Rightarrow> RestartGroup \<Rightarrow> HealthEvent \<Rightarrow> Command list" where
  "procedureFor ns scope event =
     (case scope of
        IndividualNode \<Rightarrow> individualNodeProcedure ns (layer event) (nodeIds event)
      | FullLayer \<Rightarrow> fullLayerProcedure ns (layer event)
      | FullMetagraph \<Rightarrow> fullMetagraphProcedure ns)"

text \<open>
  Modelled from the spec: a failed command ends the procedure at once. The command port
  is the argument \<open>run\<close> (true for exit code 0); the result is the commands handed to
  it and the command that failed, if one did.
\<close>

fun runProcedure :: "(Command \<Rightarrow> bool) \<Rightarrow> Command list \<Rightarrow> Command list \<times> Command option" where
  "runProcedure run [] = ([], None)"
| "runProcedure run (c # cs) =
     (if run c then (c # fst (runProcedure run cs), snd (runProcedure run cs))
      else ([c], Some c))"

text \<open>
  Modelled from the spec: the cooldown, "the most recent \<^verbatim>\<open>RestartRecord.finishedAt\<close> is
  within \<^verbatim>\<open>restartCooldownMinutes\<close>", read as less than that many minutes ago.
\<close>

definition inCooldown :: "OrchestratorConfig \<Rightarrow> int \<Rightarrow> Orchestrator \<Rightarrow> bool" where
  "inCooldown cfg now st =
     (case history st of
        [] \<Rightarrow> False
      | r # _ \<Rightarrow> now - finishedAt r < oc_restartCooldownMinutes cfg * 60000)"

text \<open>
  Modelled from the spec: the rate limit, "the number of \<^verbatim>\<open>RestartRecord\<close>s with
  \<^verbatim>\<open>startedAt\<close> in the last rolling hour is at least \<^verbatim>\<open>maxRestartsPerHour\<close>".
\<close>

definition rateLimited :: "OrchestratorConfig \<Rightarrow> int \<Rightarrow> Orchestrator \<Rightarrow> bool" where
  "rateLimited cfg now st =
     (int (length (filter (\<lambda>r. now - startedAt r < 3600000) (history st)))
        \<ge> oc_maxRestartsPerHour cfg)"

text \<open>
  Modelled from the spec: \<^verbatim>\<open>execute(event)\<close>. The cooldown is applied first, then the rate
  limit, then the procedure of the event's scope runs and is recorded, the partial run
  of a failed procedure included. A skipped call records nothing.
\<close>

definition execute ::
  "OrchestratorConfig \<Rightarrow> (Command \<Rightarrow> bool) \<Rightarrow> int \<Rightarrow> int \<Rightarrow> HealthEvent \<Rightarrow> Orchestrator
     \<Rightarrow> Outcome \<times> Orchestrator" where
  "execute cfg run now finish event st =
     (if inCooldown cfg now st then (Skipped cooldown, st)
      else if rateLimited cfg now st then (Skipped rate_limit, st)
      else case suggestedAction event of
             None \<Rightarrow> (Skipped not_actionable, st)
           | Some scope \<Rightarrow>
               (let ran = runProcedure run (procedureFor (oc_nodes cfg) scope event);
                    entry = \<lparr>rr_scope = scope, rr_layer = layer event,
                             rr_nodeIds = nodeIds event, startedAt = now, finishedAt = finish,
                             rr_outcome = (case snd ran of None \<Rightarrow> success | Some c \<Rightarrow> failed)\<rparr>
                in (case snd ran of None \<Rightarrow> Restarted | Some c \<Rightarrow> Failed c,
                    st\<lparr>history := entry # history st, invoked := invoked st @ fst ran\<rparr>)))"

section \<open>Grouping in insertion order\<close>

text \<open>
  The loops that fill a \<^verbatim>\<open>Map\<close> of arrays (\<^const>\<open>groupView\<close>, \<^const>\<open>countOrdinal\<close>) share one
  step: append the item's value to the array stored under the item's key.
\<close>

definition pushGroup :: "('a \<Rightarrow> 'k) \<Rightarrow> ('a \<Rightarrow> 'b) \<Rightarrow> 'a \<Rightarrow> ('k \<times> 'b list) list \<Rightarrow> ('k \<times> 'b list) list" where
  "pushGroup kf vf x m =
     Map_set (kf x) ((case map_of m (kf x) of None \<Rightarrow> [] | Some g \<Rightarrow> g) @ [vf x]) m"

definition healthy :: "NodeClusterView \<Rightarrow> bool" where
  "healthy v = (\<not> truthy (view_error v))"


text \<open>
  Successive calls of \<^verbatim>\<open>detectSnapshotsStopped\<close>, one per tick, each with what the nodes
  answer at that tick and the clock of that tick; the result is the stall state left.
\<close>

fun stallTicks ::
  "(rat \<Rightarrow> string) \<Rightarrow> Config \<Rightarrow> ((string \<Rightarrow> nat \<Rightarrow> Layer \<Rightarrow> int) \<times> int) list \<Rightarrow> StallState
     \<Rightarrow> StallState" where
  "stallTicks toFixed1 config [] st = st"
| "stallTicks toFixed1 config ((getLatestOrdinal, now) # rest) st =
     stallTicks toFixed1 config rest
       (snd (detectSnapshotsStopped getLatestOrdinal toFixed1 now config st))"

section \<open>Example inputs\<close>

text \<open>Small clusters in the shape of the package's unit tests, used to run the theorems.\<close>

definition exampleView :: "string \<Rightarrow> string list \<Rightarrow> string option \<Rightarrow> NodeClusterView" where
  "exampleView n ps e =
     \<lparr>view_nodeId = n, view_layer = ML0, view_host = ''10.0.0.'' @ n, view_port = 9200,
      view_peers = map (\<lambda>i. \<lparr>peer_id = i, peer_ip = None, peer_state = ''Ready''\<rparr>) ps,
      view_polledAt = ''2026-01-01T00:00:00.000Z'', view_error = e\<rparr>"

definition exampleSnapshot :: "NodeClusterView list \<Rightarrow> ClusterSnapshot" where
  "exampleSnapshot vs =
     \<lparr>snap_layer = ML0, snap_timestamp = ''2026-01-01T00:00:00.000Z'', views = vs\<rparr>"

definition snapshotTwoOne :: ClusterSnapshot where
  "snapshotTwoOne = exampleSnapshot
     [exampleView ''1'' [''a''] None, exampleView ''2'' [''a''] None, exampleView ''3'' [''b''] None]"

definition snapshotThreeWay :: ClusterSnapshot where
  "snapshotThreeWay = exampleSnapshot
     [exampleView ''1'' [''a''] None, exampleView ''2'' [''b''] None, exampleView ''3'' [''c''] None]"


definition snapshotOneDown :: ClusterSnapshot where
  "snapshotOneDown = exampleSnapshot
     [exampleView ''1'' [''a''] None, exampleView ''2'' [''a''] None,
      exampleView ''3'' [] (Some ''Error: connect ECONNREFUSED'')]"

definition snapshotAllDown :: ClusterSnapshot where
  "snapshotAllDown = exampleSnapshot
     [exampleView ''1'' [] (Some ''Error: timeout''), exampleView ''2'' [] (Some ''Error: timeout'')]"

definition exampleNode :: NodeInfo where
  "exampleNode = \<lparr>ni_nodeId = ''1'', ni_host = ''127.0.0.1'',
                   ni_layers = [\<lparr>lc_name = GL0, lc_port = 9000\<rparr>]\<rparr>"

definition examplePeer :: "string \<Rightarrow> ClusterPeer" where
  "examplePeer i = \<lparr>peer_id = i, peer_ip = None, peer_state = ''Ready''\<rparr>"

definition exampleState :: "string \<Rightarrow> int \<Rightarrow> GL0NodeState" where
  "exampleState n ord = \<lparr>gs_nodeId = n, gs_ordinal = ord, gs_hash = None\<rparr>"

definition exampleConfig :: Config where
  "exampleConfig =
     \<lparr>nodes = [\<lparr>nc_name = ''node1'', nc_ip = ''10.0.0.1''\<rparr>,
               \<lparr>nc_name = ''node2'', nc_ip = ''10.0.0.2''\<rparr>,
               \<lparr>nc_name = ''node3'', nc_ip = ''10.0.0.3''\<rparr>],
      ports = (\<lambda>l. case l of gl0 \<Rightarrow> 9000 | ml0 \<Rightarrow> 9200 | cl1 \<Rightarrow> 9300 | dl1 \<Rightarrow> 9400),
      snapshotStallMinutes = 4, healthCheckIntervalSeconds = 60,
      restartCooldownMinutes = 10, maxRestartsPerHour = 6\<rparr>"

text \<open>Node 3 sees only itself on every layer; nodes 1 and 2 see each other.\<close>

definition exampleClusterInfo :: "string \<Rightarrow> nat \<Rightarrow> ClusterMember list" where
  "exampleClusterInfo ip port =
     (if ip = ''10.0.0.3'' then [\<lparr>cm_id = ''p3''\<rparr>]
      else [\<lparr>cm_id = ''p2''\<rparr>, \<lparr>cm_id = ''p1''\<rparr>])"

text \<open>Node 1 does not answer; the others report ordinal 500.\<close>

definition exampleOrdinal :: "string \<Rightarrow> nat \<Rightarrow> Layer \<Rightarrow> int" where
  "exampleOrdinal ip port lay = (if ip = ''10.0.0.1'' then - 1 else 500)"

definition exampleDetectForked :: "StallState \<Rightarrow> DetectionResult option \<times> StallState" where
  "exampleDetectForked w =
     (Some (detectForkedCluster exampleClusterInfo (join '','') exampleConfig), w)"

definition exampleDetectStopped :: "StallState \<Rightarrow> DetectionResult option \<times> StallState" where
  "exampleDetectStopped w =
     (Some (fst (detectSnapshotsStopped exampleOrdinal (\<lambda>m. ''?'') 246000 exampleConfig w)),
      snd (detectSnapshotsStopped exampleOrdinal (\<lambda>m. ''?'') 246000 exampleConfig w))"

definition exampleDetectUnhealthy :: "StallState \<Rightarrow> DetectionResult option \<times> StallState" where
  "exampleDetectUnhealthy w =
     (Some \<lparr>detected = False, dr_condition = ''UnhealthyNodes'', details = [],
            restartScope = ScopeNone, affectedNodes = None, affectedLayers = None\<rparr>, w)"

text \<open>An orchestrator that skips every restart, as during a cooldown.\<close>

definition exampleSkip :: "DetectionResult \<Rightarrow> StallState \<Rightarrow> bool option \<times> StallState" where
  "exampleSkip result w = (Some False, w)"

definition exampleOrchestratorConfig :: OrchestratorConfig where
  "exampleOrchestratorConfig =
     \<lparr>oc_nodes = [\<lparr>ni_nodeId = ''1'', ni_host = ''10.0.0.1'', ni_layers = []\<rparr>,
                  \<lparr>ni_nodeId = ''2'', ni_host = ''10.0.0.2'', ni_layers = []\<rparr>],
      oc_restartCooldownMinutes = 10, oc_maxRestartsPerHour = 6\<rparr>"

definition exampleStallEvent :: HealthEvent where
  "exampleStallEvent =
     \<lparr>condition = SNAPSHOT_STALL, layer = ML0, nodeIds = [''1'', ''2''],
      description = ''stalled'', timestamp = ''2026-01-01T00:00:00.000Z'',
      suggestedAction = Some FullLayer\<rparr>"

definition exampleRestart :: "DetectionResult \<Rightarrow> StallState \<Rightarrow> bool option \<times> StallState" where
  "exampleRestart result w = (Some True, w)"

definition newOrchestrator :: Orchestrator where
  "newOrchestrator = \<lparr>history = [], invoked = []\<rparr>"

text \<open>Four nodes split two against two: nodes 1 and 2 see each other, as do nodes 3 and 4.\<close>

definition exampleConfigFour :: Config where
  "exampleConfigFour =
     \<lparr>nodes = [\<lparr>nc_name = ''node1'', nc_ip = ''10.0.0.1''\<rparr>,
               \<lparr>nc_name = ''node2'', nc_ip = ''10.0.0.2''\<rparr>,
               \<lparr>nc_name = ''node3'', nc_ip = ''10.0.0.3''\<rparr>,
               \<lparr>nc_name = ''node4'', nc_ip = ''10.0.0.4''\<rparr>],
      ports = (\<lambda>l. case l of gl0 \<Rightarrow> 9000 | ml0 \<Rightarrow> 9200 | cl1 \<Rightarrow> 9300 | dl1 \<Rightarrow> 9400),
      snapshotStallMinutes = 4, healthCheckIntervalSeconds = 60,
      restartCooldownMinutes = 10, maxRestartsPerHour = 6\<rparr>"

definition exampleClusterInfoFour :: "string \<Rightarrow> nat \<Rightarrow> ClusterMember list" where
  "exampleClusterInfoFour ip port =
     (if ip = ''10.0.0.1'' \<or> ip = ''10.0.0.2'' then [\<lparr>cm_id = ''p1''\<rparr>, \<lparr>cm_id = ''p2''\<rparr>]
      else [\<lparr>cm_id = ''p3''\<rparr>, \<lparr>cm_id = ''p4''\<rparr>])"

text \<open>Nodes 1 and 2 return no members; node 3 sees itself.\<close>

definition exampleClusterInfoTwoDown :: "string \<Rightarrow> nat \<Rightarrow> ClusterMember list" where
  "exampleClusterInfoTwoDown ip port = (if ip = ''10.0.0.3'' then [\<lparr>cm_id = ''p3''\<rparr>] else [])"

text \<open>Nodes 1 and 2 do not answer; node 3 lags at ordinal 499.\<close>

definition exampleOrdinalLagging :: "string \<Rightarrow> nat \<Rightarrow> Layer \<Rightarrow> int" where
  "exampleOrdinalLagging ip port lay = (if ip = ''10.0.0.3'' then 499 else - 1)"

section \<open>Properties of the stall tracker\<close>

lemma update_lastOrdinal_mono:
  assumes "lastOrdinal t k = Some p"
  shows "\<exists>q. lastOrdinal (snd (update snap now t)) k = Some q \<and> p \<le> q"
  using assms by (auto simp: update_def Let_def)

lemma updates_lastOrdinal_mono:
  "lastOrdinal t k = Some p \<Longrightarrow> \<exists>q. lastOrdinal (updates us t) k = Some q \<and> p \<le> q"
proof (induction us arbitrary: t p)
  case Nil
  then show ?case by simp
next
  case (Cons u us)
  obtain snap now where u: "u = (snap, now)" by (cases u)
  from update_lastOrdinal_mono [OF Cons.prems, of snap now]
  obtain q where q: "lastOrdinal (snd (update snap now t)) k = Some q" "p \<le> q" by blast
  from Cons.IH [OF q(1)] obtain r
    where "lastOrdinal (updates us (snd (update snap now t))) k = Some r" "q \<le> r" by blast
  with q(2) u show ?case by auto
qed

text \<open>
  The tracker of \<^verbatim>\<open>snapshot.ts\<close> tests \<^verbatim>\<open>snap.ordinal > prev\<close>. Over every sequence of
  \<^verbatim>\<open>update\<close> calls the ordinal recorded for a key never decreases. A single call whose ordinal is at most the recorded one returns \<^verbatim>\<open>false\<close>
  (stalled) and leaves both maps as they were; a call on a key never seen, or with a
  strictly larger ordinal, returns \<^verbatim>\<open>true\<close> and records the new ordinal and the time
  of the call; and the state changes in no other case.
\<close>

theorem stallTracker_never_decreases:
  "(\<forall>us k' p. lastOrdinal t k' = Some p \<longrightarrow>
      (\<exists>q. lastOrdinal (updates us t) k' = Some q \<and> p \<le> q))
   \<and> (\<forall>p. lastOrdinal t (key (os_nodeId snap) (layerName_str (os_layer snap))) = Some p
          \<and> os_ordinal snap \<le> p \<longrightarrow>
        update snap now t = (False, t))
   \<and> (lastOrdinal t (key (os_nodeId snap) (layerName_str (os_layer snap))) = None
        \<or> (\<exists>p. lastOrdinal t (key (os_nodeId snap) (layerName_str (os_layer snap))) = Some p
               \<and> p < os_ordinal snap) \<longrightarrow>
        fst (update snap now t) \<and>
        lastOrdinal (snd (update snap now t))
          (key (os_nodeId snap) (layerName_str (os_layer snap))) = Some (os_ordinal snap) \<and>
        lastChanged (snd (update snap now t))
          (key (os_nodeId snap) (layerName_str (os_layer snap))) = Some now)
   \<and> (snd (update snap now t) \<noteq> t \<longrightarrow>
        lastOrdinal t (key (os_nodeId snap) (layerName_str (os_layer snap))) = None
        \<or> (\<exists>p. lastOrdinal t (key (os_nodeId snap) (layerName_str (os_layer snap))) = Some p
               \<and> p < os_ordinal snap))"
proof -
  let ?k = "key (os_nodeId snap) (layerName_str (os_layer snap))"
  have mono: "\<forall>us k' p. lastOrdinal t k' = Some p \<longrightarrow>
          (\<exists>q. lastOrdinal (updates us t) k' = Some q \<and> p \<le> q)"
    using updates_lastOrdinal_mono by blast
  have stalled: "\<forall>p. lastOrdinal t ?k = Some p \<and> os_ordinal snap \<le> p \<longrightarrow>
          update snap now t = (False, t)"
    by (auto simp: update_def Let_def)
  have advanced: "lastOrdinal t ?k = None \<or> (\<exists>p. lastOrdinal t ?k = Some p \<and> p < os_ordinal snap) \<longrightarrow>
          fst (update snap now t) \<and>
          lastOrdinal (snd (update snap now t)) ?k = Some (os_ordinal snap) \<and>
          lastChanged (snd (update snap now t)) ?k = Some now"
    by (auto simp: update_def Let_def)
  have only: "snd (update snap now t) \<noteq> t \<longrightarrow>
          lastOrdinal t ?k = None \<or> (\<exists>p. lastOrdinal t ?k = Some p \<and> p < os_ordinal snap)"
    by (auto simp: update_def Let_def split: if_splits option.splits)
  from mono stalled advanced only show ?thesis by blast
qed

theorem stallTracker_never_decreases_witness:
  "lastOrdinal
     (snd (update \<lparr>os_nodeId = ''n1'', os_layer = ML0, os_ordinal = 100, os_timestamp = ''t0''\<rparr>
             5 newStallTracker)) (key ''n1'' ''ML0'') = Some 100
   \<and> update \<lparr>os_nodeId = ''n1'', os_layer = ML0, os_ordinal = 100, os_timestamp = ''t1''\<rparr> 9
       (snd (update \<lparr>os_nodeId = ''n1'', os_layer = ML0, os_ordinal = 100, os_timestamp = ''t0''\<rparr>
               5 newStallTracker))
     = (False,
        snd (update \<lparr>os_nodeId = ''n1'', os_layer = ML0, os_ordinal = 100, os_timestamp = ''t0''\<rparr>
               5 newStallTracker))
   \<and> (\<exists>q. lastOrdinal
            (updates [(\<lparr>os_nodeId = ''n1'', os_layer = ML0, os_ordinal = 90, os_timestamp = ''t2''\<rparr>, 7)]
               (snd (update \<lparr>os_nodeId = ''n1'', os_layer = ML0, os_ordinal = 100, os_timestamp = ''t0''\<rparr>
                       5 newStallTracker)))
            (key ''n1'' ''ML0'') = Some q \<and> 100 \<le> q)"
proof -
  let ?s0 = "\<lparr>os_nodeId = ''n1'', os_layer = ML0, os_ordinal = 100, os_timestamp = ''t0''\<rparr>"
  let ?s1 = "\<lparr>os_nodeId = ''n1'', os_layer = ML0, os_ordinal = 100, os_timestamp = ''t1''\<rparr>"
  let ?t1 = "snd (update ?s0 5 newStallTracker)"
  have fresh: "lastOrdinal newStallTracker
                 (key (os_nodeId ?s0) (layerName_str (os_layer ?s0))) = None"
    by (simp add: newStallTracker_def)
  from fresh stallTracker_never_decreases [of newStallTracker ?s0 5]
  have h: "lastOrdinal ?t1 (key ''n1'' ''ML0'') = Some 100" by simp
  from h stallTracker_never_decreases [of ?t1 ?s1 9]
  have a: "update ?s1 9 ?t1 = (False, ?t1)" by simp
  from h stallTracker_never_decreases [of ?t1 ?s1 9]
  have b: "\<exists>q. lastOrdinal
            (updates [(\<lparr>os_nodeId = ''n1'', os_layer = ML0, os_ordinal = 90, os_timestamp = ''t2''\<rparr>, 7)] ?t1)
            (key ''n1'' ''ML0'') = Some q \<and> 100 \<le> q" by blast
  from h a b show ?thesis by blast
qed

section \<open>Grouping and the largest group\<close>

lemma map_of_Map_set: "map_of (Map_set k v m) = (map_of m)(k \<mapsto> v)"
  by (induction m) (auto simp: fun_eq_iff)

lemma keys_Map_set_old: "k \<in> fst ` set m \<Longrightarrow> map fst (Map_set k v m) = map fst m"
  by (induction m) (auto, force)

lemma keys_Map_set_new: "k \<notin> fst ` set m \<Longrightarrow> map fst (Map_set k v m) = map fst m @ [k]"
  by (induction m) auto

lemma keys_Map_set:
  "map fst (Map_set k v m) = (if k \<in> fst ` set m then map fst m else map fst m @ [k])"
  by (simp add: keys_Map_set_old keys_Map_set_new)

lemma keys_pushGroup:
  "map fst (pushGroup kf vf x m) = (if kf x \<in> fst ` set m then map fst m else map fst m @ [kf x])"
  unfolding pushGroup_def by (rule keys_Map_set)

lemma map_of_pushGroup:
  "map_of (pushGroup kf vf x m) k =
     (if k = kf x then Some ((case map_of m k of None \<Rightarrow> [] | Some g \<Rightarrow> g) @ [vf x])
      else map_of m k)"
  by (simp add: pushGroup_def map_of_Map_set)

lemma keys_fold_pushGroup:
  "\<exists>rest. map fst (fold (pushGroup kf vf) xs m) = map fst m @ rest"
proof (induction xs arbitrary: m)
  case Nil
  then show ?case by simp
next
  case (Cons x xs)
  from Cons.IH [of "pushGroup kf vf x m"] obtain rest
    where "map fst (fold (pushGroup kf vf) xs (pushGroup kf vf x m))
             = map fst (pushGroup kf vf x m) @ rest" by blast
  then show ?case by (simp add: keys_pushGroup split: if_splits)
qed

lemma distinct_fold_pushGroup:
  "distinct (map fst m) \<Longrightarrow> distinct (map fst (fold (pushGroup kf vf) xs m))"
proof (induction xs arbitrary: m)
  case Nil
  then show ?case by simp
next
  case (Cons x xs)
  from Cons.prems have "distinct (map fst (pushGroup kf vf x m))"
    by (simp add: keys_pushGroup)
  from Cons.IH [OF this] show ?case by simp
qed

lemma set_keys_fold_pushGroup:
  "fst ` set (fold (pushGroup kf vf) xs m) = fst ` set m \<union> kf ` set xs"
proof (induction xs arbitrary: m)
  case Nil
  then show ?case by simp
next
  case (Cons x xs)
  have "set (map fst (pushGroup kf vf x m)) = insert (kf x) (set (map fst m))"
    by (auto simp: keys_pushGroup)
  then have "fst ` set (pushGroup kf vf x m) = insert (kf x) (fst ` set m)" by simp
  with Cons.IH [of "pushGroup kf vf x m"] show ?case by auto
qed

lemma map_of_fold_pushGroup:
  "map_of (fold (pushGroup kf vf) xs m) k =
     (if k \<in> kf ` set xs \<or> map_of m k \<noteq> None
      then Some ((case map_of m k of None \<Rightarrow> [] | Some g \<Rightarrow> g)
                   @ map vf (filter (\<lambda>x. kf x = k) xs))
      else None)"
proof (induction xs arbitrary: m)
  case Nil
  then show ?case by (auto split: option.splits)
next
  case (Cons x xs)
  show ?case
    by (simp add: Cons.IH [of "pushGroup kf vf x m"] map_of_pushGroup split: option.splits)
qed

lemma entries_fold_pushGroup:
  assumes "(k, g) \<in> set (fold (pushGroup kf vf) xs [])"
  shows "k \<in> kf ` set xs \<and> g = map vf (filter (\<lambda>x. kf x = k) xs)"
proof -
  have "distinct (map fst (fold (pushGroup kf vf) xs []))"
    by (rule distinct_fold_pushGroup) simp
  with assms have "map_of (fold (pushGroup kf vf) xs []) k = Some g" by simp
  then show ?thesis by (simp add: map_of_fold_pushGroup split: if_splits)
qed

lemma entry_of_item:
  assumes "x \<in> set xs"
  shows "(kf x, map vf (filter (\<lambda>y. kf y = kf x) xs)) \<in> set (fold (pushGroup kf vf) xs [])"
proof -
  from assms have "map_of (fold (pushGroup kf vf) xs []) (kf x)
                     = Some (map vf (filter (\<lambda>y. kf y = kf x) xs))"
    by (simp add: map_of_fold_pushGroup)
  then show ?thesis by (rule map_of_SomeD)
qed

lemma set_entry_values:
  "(k, g) \<in> set (fold (pushGroup kf vf) xs []) \<Longrightarrow> set g \<subseteq> vf ` set xs"
  using entries_fold_pushGroup [of k g kf vf xs] by auto

lemma fold_largerGroup:
  "fold largerGroup es b = b \<and> (\<forall>e\<in>set es. length (snd e) \<le> length (snd b))
   \<or> (\<exists>pre post. es = pre @ fold largerGroup es b # post
         \<and> (\<forall>e\<in>set pre. length (snd e) < length (snd (fold largerGroup es b)))
         \<and> length (snd b) < length (snd (fold largerGroup es b))
         \<and> (\<forall>e\<in>set post. length (snd e) \<le> length (snd (fold largerGroup es b))))"
proof (induction es arbitrary: b)
  case Nil
  then show ?case by simp
next
  case (Cons e es)
  let ?r = "fold largerGroup es (largerGroup e b)"
  have r: "fold largerGroup (e # es) b = ?r" by simp
  show ?case
  proof (cases "length (snd e) > length (snd b)")
    case True
    then have lb: "largerGroup e b = e" by (simp add: largerGroup_def)
    from Cons.IH [of e] show ?thesis
    proof
      assume "fold largerGroup es e = e \<and> (\<forall>x\<in>set es. length (snd x) \<le> length (snd e))"
      then have "e # es = [] @ ?r # es \<and> (\<forall>x\<in>set []. length (snd x) < length (snd ?r))
          \<and> length (snd b) < length (snd ?r) \<and> (\<forall>x\<in>set es. length (snd x) \<le> length (snd ?r))"
        using True lb by simp
      then show ?thesis unfolding r by blast
    next
      assume "\<exists>pre post. es = pre @ fold largerGroup es e # post
         \<and> (\<forall>x\<in>set pre. length (snd x) < length (snd (fold largerGroup es e)))
         \<and> length (snd e) < length (snd (fold largerGroup es e))
         \<and> (\<forall>x\<in>set post. length (snd x) \<le> length (snd (fold largerGroup es e)))"
      then obtain pre post where p: "es = pre @ fold largerGroup es e # post"
         "\<forall>x\<in>set pre. length (snd x) < length (snd (fold largerGroup es e))"
         "length (snd e) < length (snd (fold largerGroup es e))"
         "\<forall>x\<in>set post. length (snd x) \<le> length (snd (fold largerGroup es e))" by blast
      from p have "e # es = (e # pre) @ ?r # post \<and> (\<forall>x\<in>set (e # pre). length (snd x) < length (snd ?r))
          \<and> length (snd b) < length (snd ?r) \<and> (\<forall>x\<in>set post. length (snd x) \<le> length (snd ?r))"
        using True lb by auto
      then show ?thesis unfolding r by blast
    qed
  next
    case False
    then have lb: "largerGroup e b = b" by (simp add: largerGroup_def)
    from Cons.IH [of b] show ?thesis
    proof
      assume "fold largerGroup es b = b \<and> (\<forall>x\<in>set es. length (snd x) \<le> length (snd b))"
      then show ?thesis using False lb by simp
    next
      assume "\<exists>pre post. es = pre @ fold largerGroup es b # post
         \<and> (\<forall>x\<in>set pre. length (snd x) < length (snd (fold largerGroup es b)))
         \<and> length (snd b) < length (snd (fold largerGroup es b))
         \<and> (\<forall>x\<in>set post. length (snd x) \<le> length (snd (fold largerGroup es b)))"
      then obtain pre post where p: "es = pre @ fold largerGroup es b # post"
         "\<forall>x\<in>set pre. length (snd x) < length (snd (fold largerGroup es b))"
         "length (snd b) < length (snd (fold largerGroup es b))"
         "\<forall>x\<in>set post. length (snd x) \<le> length (snd (fold largerGroup es b))" by blast
      from p have "e # es = (e # pre) @ ?r # post \<and> (\<forall>x\<in>set (e # pre). length (snd x) < length (snd ?r))
          \<and> length (snd b) < length (snd ?r) \<and> (\<forall>x\<in>set post. length (snd x) \<le> length (snd ?r))"
        using False lb by auto
      then show ?thesis unfolding r by blast
    qed
  qed
qed

lemma takeWhile_upto: "x \<notin> set a \<Longrightarrow> takeWhile (\<lambda>y. y \<noteq> x) (a @ x # b) = a"
  by (induction a) auto

lemma split_unique:
  assumes "distinct ys" "ys = a1 @ x # b1" "ys = a2 @ x # b2"
  shows "a1 = a2"
proof -
  from assms(1) have "x \<notin> set a1" unfolding assms(2) by simp
  then have "takeWhile (\<lambda>y. y \<noteq> x) ys = a1" unfolding assms(2) by (rule takeWhile_upto)
  moreover from assms(1) have "x \<notin> set a2" unfolding assms(3) by simp
  then have "takeWhile (\<lambda>y. y \<noteq> x) ys = a2" unfolding assms(3) by (rule takeWhile_upto)
  ultimately show ?thesis by simp
qed

lemma keys_before_first:
  assumes "kf x \<notin> kf ` set pre"
  shows "\<exists>kpre krest. map fst (fold (pushGroup kf vf) (pre @ x # post) []) = kpre @ kf x # krest
           \<and> set kpre = kf ` set pre"
proof -
  let ?m = "fold (pushGroup kf vf) pre []"
  have s: "fst ` set ?m = kf ` set pre" by (simp add: set_keys_fold_pushGroup)
  with assms have k: "map fst (pushGroup kf vf x ?m) = map fst ?m @ [kf x]"
    by (simp add: keys_pushGroup)
  obtain rest where "map fst (fold (pushGroup kf vf) post (pushGroup kf vf x ?m))
      = map fst (pushGroup kf vf x ?m) @ rest"
    using keys_fold_pushGroup by blast
  with k have "map fst (fold (pushGroup kf vf) (pre @ x # post) []) = map fst ?m @ kf x # rest"
    by simp
  moreover from s have "set (map fst ?m) = kf ` set pre" by simp
  ultimately show ?thesis by blast
qed

lemma largest_group:
  fixes kf :: "'a \<Rightarrow> 'k" and vf :: "'a \<Rightarrow> 'c" and xs :: "'a list" and k0 :: 'k
  defines "es \<equiv> fold (pushGroup kf vf) xs []"
  defines "r \<equiv> fold largerGroup es (k0, [])"
  assumes ne: "xs \<noteq> []"
  shows "snd r = map vf (filter (\<lambda>x. kf x = fst r) xs)"
    and "\<forall>x\<in>set xs. length (filter (\<lambda>y. kf y = kf x) xs) \<le> length (snd r)"
    and "\<exists>pre x post. xs = pre @ x # post \<and> kf x = fst r \<and>
           (\<forall>u\<in>set pre. length (filter (\<lambda>y. kf y = kf u) xs) < length (snd r))"
proof -
  from ne obtain x0 where x0: "x0 \<in> set xs" by (cases xs) auto
  have e0: "(kf x0, map vf (filter (\<lambda>y. kf y = kf x0) xs)) \<in> set es"
    unfolding es_def using x0 by (rule entry_of_item)
  from x0 have "filter (\<lambda>y. kf y = kf x0) xs \<noteq> []" by (auto simp: filter_empty_conv)
  then have pos: "0 < length (snd (kf x0, map vf (filter (\<lambda>y. kf y = kf x0) xs)))" by simp
  have "\<not> (\<forall>e\<in>set es. length (snd e) \<le> length (snd (k0, [] :: 'c list)))"
    using e0 pos by fastforce
  with fold_largerGroup [of es "(k0, [])"] obtain pre_e post_e
    where sp: "es = pre_e @ r # post_e"
      and lt: "\<forall>e\<in>set pre_e. length (snd e) < length (snd r)"
      and le: "\<forall>e\<in>set post_e. length (snd e) \<le> length (snd r)"
    unfolding r_def by blast
  from sp have rin: "(fst r, snd r) \<in> set es" by simp
  from entries_fold_pushGroup [OF rin [unfolded es_def]]
  have key: "fst r \<in> kf ` set xs" and grp: "snd r = map vf (filter (\<lambda>x. kf x = fst r) xs)"
    by simp_all
  show "snd r = map vf (filter (\<lambda>x. kf x = fst r) xs)" by (rule grp)
  show "\<forall>x\<in>set xs. length (filter (\<lambda>y. kf y = kf x) xs) \<le> length (snd r)"
  proof
    fix x assume "x \<in> set xs"
    then have "(kf x, map vf (filter (\<lambda>y. kf y = kf x) xs)) \<in> set es"
      unfolding es_def by (rule entry_of_item)
    then have "length (snd (kf x, map vf (filter (\<lambda>y. kf y = kf x) xs))) \<le> length (snd r)"
      unfolding sp using lt le by (auto simp del: snd_conv dest: less_imp_le)
    then show "length (filter (\<lambda>y. kf y = kf x) xs) \<le> length (snd r)" by simp
  qed
  from key have "\<exists>x\<in>set xs. kf x = fst r" by auto
  from split_list_first_prop [OF this] obtain pre x post
    where xs: "xs = pre @ x # post" and kx: "kf x = fst r" and npre: "\<forall>u\<in>set pre. kf u \<noteq> fst r"
    by blast
  from npre kx have "kf x \<notin> kf ` set pre" by auto
  from keys_before_first [OF this, of vf post] obtain kpre krest
    where ko: "map fst es = kpre @ fst r # krest" and ks: "set kpre = kf ` set pre"
    unfolding es_def xs kx by blast
  have dist: "distinct (map fst es)" unfolding es_def by (rule distinct_fold_pushGroup) simp
  from sp have ko2: "map fst es = map fst pre_e @ fst r # map fst post_e" by simp
  from split_unique [OF dist ko2 ko] have pe: "map fst pre_e = kpre" .
  have "\<forall>u\<in>set pre. length (filter (\<lambda>y. kf y = kf u) xs) < length (snd r)"
  proof
    fix u assume u: "u \<in> set pre"
    then have "kf u \<in> set (map fst pre_e)" using ks pe by simp
    then obtain g where g: "(kf u, g) \<in> set pre_e" by auto
    with sp have "(kf u, g) \<in> set es" by simp
    from entries_fold_pushGroup [OF this [unfolded es_def]]
    have "g = map vf (filter (\<lambda>y. kf y = kf u) xs)" by simp
    moreover from g lt have "length g < length (snd r)" by fastforce
    ultimately show "length (filter (\<lambda>y. kf y = kf u) xs) < length (snd r)" by simp
  qed
  with xs kx show "\<exists>pre x post. xs = pre @ x # post \<and> kf x = fst r \<and>
           (\<forall>u\<in>set pre. length (filter (\<lambda>y. kf y = kf u) xs) < length (snd r))"
    by blast
qed




lemma size_Map_set:
  "length (concat (map snd (Map_set k v m)))
     + (case map_of m k of None \<Rightarrow> 0 | Some g \<Rightarrow> length g)
   = length (concat (map snd m)) + length v"
  by (induction m) auto

lemma size_pushGroup:
  "length (concat (map snd (pushGroup kf vf x m))) = Suc (length (concat (map snd m)))"
  using size_Map_set [of "kf x" "(case map_of m (kf x) of None \<Rightarrow> [] | Some g \<Rightarrow> g) @ [vf x]" m]
  by (simp add: pushGroup_def split: option.splits)

lemma size_fold_pushGroup:
  "length (concat (map snd (fold (pushGroup kf vf) xs m)))
     = length (concat (map snd m)) + length xs"
  by (induction xs arbitrary: m) (simp_all add: size_pushGroup)

lemma size_without_entry:
  "distinct (map fst es) \<Longrightarrow> (k, g) \<in> set es \<Longrightarrow>
   length (concat (map snd (filter (\<lambda>e. fst e \<noteq> k) es))) + length g
     = length (concat (map snd es))"
proof (induction es)
  case Nil
  then show ?case by simp
next
  case (Cons e es)
  show ?case
  proof (cases "e = (k, g)")
    case True
    with Cons.prems have "\<forall>e'\<in>set es. fst e' \<noteq> k" by auto
    then have "filter (\<lambda>e. fst e \<noteq> k) es = es" by simp
    with True show ?thesis by simp
  next
    case False
    with Cons.prems have in_es: "(k, g) \<in> set es" by simp
    then have "k \<in> fst ` set es" by force
    with Cons.prems(1) have "fst e \<noteq> k" by auto
    with Cons.IH in_es Cons.prems show ?thesis by simp
  qed
qed

section \<open>The majority found by findMajority\<close>

lemma fold_groupView_pushGroup:
  "fold groupView vs m = fold (pushGroup clusterKey view_nodeId) (filter healthy vs) m"
  by (induction vs arbitrary: m) (simp_all add: groupView_def healthy_def pushGroup_def Let_def)

lemma fold_groupView_healthy:
  "fold groupView vs m = fold groupView (filter healthy vs) m"
  by (induction vs arbitrary: m) (simp_all add: groupView_def healthy_def)

lemma findMajority_healthy:
  assumes "filter healthy (views s) \<noteq> []"
  shows "majorityKey (findMajority s)
           = fst (fold largerGroup (fold (pushGroup clusterKey view_nodeId) (filter healthy (views s)) []) ([], []))"
    and "majorityNodes (findMajority s)
           = snd (fold largerGroup (fold (pushGroup clusterKey view_nodeId) (filter healthy (views s)) []) ([], []))"
proof -
  have "fst ` set (fold (pushGroup clusterKey view_nodeId) (filter healthy (views s)) [])
          = clusterKey ` set (filter healthy (views s))"
    by (simp add: set_keys_fold_pushGroup)
  with assms have "fold (pushGroup clusterKey view_nodeId) (filter healthy (views s)) [] \<noteq> []"
    by (cases "filter healthy (views s)") auto
  then show "majorityKey (findMajority s)
           = fst (fold largerGroup (fold (pushGroup clusterKey view_nodeId) (filter healthy (views s)) []) ([], []))"
    and "majorityNodes (findMajority s)
           = snd (fold largerGroup (fold (pushGroup clusterKey view_nodeId) (filter healthy (views s)) []) ([], []))"
    by (simp_all add: findMajority_def fold_groupView_pushGroup Let_def)
qed

lemma findMajority_healthy_only:
  "findMajority (s\<lparr>views := filter healthy (views s)\<rparr>) = (findMajority s)\<lparr>unreachable := []\<rparr>"
proof -
  have a: "fold groupView (filter healthy (views s)) [] = fold groupView (views s) []"
    by (rule fold_groupView_healthy [symmetric])
  have b: "filter (\<lambda>v. healthy v \<and> truthy (view_error v)) (views s) = []"
    by (auto simp: healthy_def filter_empty_conv)
  show ?thesis by (simp add: findMajority_def a b Let_def)
qed

lemma unreachable_findMajority:
  "unreachable (findMajority s) = map view_nodeId (filter (\<lambda>v. truthy (view_error v)) (views s))"
  by (simp add: findMajority_def Let_def)

lemma findMajority_all_errors:
  assumes "\<forall>v\<in>set (views s). truthy (view_error v)"
  shows "minorityNodes (findMajority s) = []"
proof -
  from assms have "filter healthy (views s) = []" by (auto simp: healthy_def filter_empty_conv)
  then have "fold groupView (views s) [] = []" using fold_groupView_healthy [of "views s" "[]"] by simp
  then show ?thesis by (simp add: findMajority_def Let_def)
qed

lemma minority_plus_majority:
  assumes "filter healthy (views s) \<noteq> []"
  shows "length (minorityNodes (findMajority s)) + length (majorityNodes (findMajority s))
           = length (filter healthy (views s))"
proof -
  let ?es = "fold (pushGroup clusterKey view_nodeId) (filter healthy (views s)) []"
  let ?r = "fold largerGroup ?es ([], [])"
  have "fst ` set ?es = clusterKey ` set (filter healthy (views s))"
    by (simp add: set_keys_fold_pushGroup)
  with assms have ne: "?es \<noteq> []" by (cases "filter healthy (views s)") auto
  then have mino: "minorityNodes (findMajority s)
                     = concat (map snd (filter (\<lambda>e. fst e \<noteq> fst ?r) ?es))"
    by (simp add: findMajority_def fold_groupView_pushGroup Let_def)
  from ne have majo: "majorityNodes (findMajority s) = snd ?r"
    by (simp add: findMajority_def fold_groupView_pushGroup Let_def)
  note lg = largest_group [OF assms, of clusterKey view_nodeId "[]"]
  from lg(3) obtain pre x post
    where sp: "filter healthy (views s) = pre @ x # post" and kx: "clusterKey x = fst ?r"
    by blast
  from sp have "x \<in> set (filter healthy (views s))" by (metis in_set_conv_decomp)
  from entry_of_item [OF this, of clusterKey view_nodeId] kx lg(1)
  have rin: "(fst ?r, snd ?r) \<in> set ?es" by simp
  have dist: "distinct (map fst ?es)" by (rule distinct_fold_pushGroup) simp
  from size_without_entry [OF dist rin] size_fold_pushGroup [of clusterKey view_nodeId "filter healthy (views s)" "[]"]
  show ?thesis unfolding mino majo by simp
qed

lemma minority_only_if_healthy:
  "minorityNodes (findMajority s) \<noteq> [] \<Longrightarrow> filter healthy (views s) \<noteq> []"
proof (rule ccontr)
  assume a: "minorityNodes (findMajority s) \<noteq> []" and "\<not> filter healthy (views s) \<noteq> []"
  then have "fold groupView (views s) [] = []" by (simp add: fold_groupView_pushGroup)
  then have "minorityNodes (findMajority s) = []" by (simp add: findMajority_def Let_def)
  with a show False by simp
qed

lemma minority_subset_healthy:
  "set (minorityNodes (findMajority s)) \<subseteq> view_nodeId ` set (filter healthy (views s))"
proof (cases "fold groupView (views s) [] = []")
  case True
  then show ?thesis by (simp add: findMajority_def Let_def)
next
  case False
  let ?es = "fold (pushGroup clusterKey view_nodeId) (filter healthy (views s)) []"
  from False have eq: "minorityNodes (findMajority s)
      = concat (map snd (filter (\<lambda>e. fst e \<noteq> majorityKey (findMajority s)) ?es))"
    by (simp add: findMajority_def Let_def fold_groupView_pushGroup)
  show ?thesis
  proof
    fix n assume "n \<in> set (minorityNodes (findMajority s))"
    then obtain k g where kg: "(k, g) \<in> set ?es" and n: "n \<in> set g"
      unfolding eq by auto
    from set_entry_values [OF kg] n
    show "n \<in> view_nodeId ` set (filter healthy (views s))" by blast
  qed
qed

section \<open>The example snapshots\<close>

lemma clusterKey_exampleView:
  "clusterKey (exampleView n [p] None) = (if p = [] then ''EMPTY'' else p)"
  "clusterKey (exampleView n [] (Some (c # cs))) = ''ERROR:'' @ n"
  by (simp_all add: clusterKey_def exampleView_def)

lemma groupView_exampleView:
  "groupView (exampleView n [p] None) m =
     Map_set (clusterKey (exampleView n [p] None))
       ((case map_of m (clusterKey (exampleView n [p] None)) of None \<Rightarrow> [] | Some g \<Rightarrow> g) @ [n]) m"
  "groupView (exampleView n [] (Some (c # cs))) m = m"
  by (simp_all add: groupView_def exampleView_def Let_def)

lemma error_exampleView:
  "truthy (view_error (exampleView n ps None)) = False"
  "truthy (view_error (exampleView n ps (Some (c # cs)))) = True"
  "view_nodeId (exampleView n ps e) = n"
  by (simp_all add: exampleView_def)

lemma healthy_exampleView:
  "healthy (exampleView n ps None) = True"
  "healthy (exampleView n ps (Some (c # cs))) = False"
  by (simp_all add: healthy_def exampleView_def)

lemmas example_simps =
  clusterKey_exampleView groupView_exampleView error_exampleView
  findMajority_def exampleSnapshot_def largerGroup_def Let_def

lemma findMajority_snapshotTwoOne:
  "findMajority snapshotTwoOne =
     \<lparr>majorityKey = ''a'', majorityNodes = [''1'', ''2''], minorityNodes = [''3''],
      unreachable = []\<rparr>"
  by (simp add: snapshotTwoOne_def example_simps)

lemma findMajority_snapshotThreeWay:
  "findMajority snapshotThreeWay =
     \<lparr>majorityKey = ''a'', majorityNodes = [''1''], minorityNodes = [''2'', ''3''],
      unreachable = []\<rparr>"
  by (simp add: snapshotThreeWay_def example_simps)


lemma findMajority_snapshotOneDown:
  "findMajority snapshotOneDown =
     \<lparr>majorityKey = ''a'', majorityNodes = [''1'', ''2''], minorityNodes = [],
      unreachable = [''3'']\<rparr>"
  by (simp add: snapshotOneDown_def example_simps)

lemma findMajority_snapshotAllDown:
  "findMajority snapshotAllDown =
     \<lparr>majorityKey = ''EMPTY'', majorityNodes = [], minorityNodes = [],
      unreachable = [''1'', ''2'']\<rparr>"
  by (simp add: snapshotAllDown_def example_simps)


section \<open>The watchdog's fork check\<close>






lemma forked_iff_minority:
  "forked (checkLayerFork gci sha config lay)
     \<longleftrightarrow> fc_minorityNodes (checkLayerFork gci sha config lay) \<noteq> []"
  by (simp add: checkLayerFork_def Let_def)

text \<open>The loop over the layers returns at the first forked layer.\<close>

lemma forkedLayerLoop_detected:
  "detected (forkedLayerLoop gci sha config ls) \<Longrightarrow>
   \<exists>pre lay post. ls = pre @ lay # post
     \<and> (\<forall>l\<in>set pre. \<not> forked (checkLayerFork gci sha config l))
     \<and> forked (checkLayerFork gci sha config lay)
     \<and> affectedNodes (forkedLayerLoop gci sha config ls)
         = Some (fc_minorityNodes (checkLayerFork gci sha config lay))
     \<and> affectedLayers (forkedLayerLoop gci sha config ls) = Some [lay]
     \<and> restartScope (forkedLayerLoop gci sha config ls)
         = (if int (length (fc_minorityNodes (checkLayerFork gci sha config lay)))
                \<ge> int (length (nodes config)) - 1
            then ScopeFullLayer else ScopeIndividualNode)"
proof (induction ls)
  case Nil
  then show ?case by simp
next
  case (Cons l ls)
  show ?case
  proof (cases "forked (checkLayerFork gci sha config l)")
    case True
    show ?thesis
      apply (rule exI [of _ "[]"], rule exI [of _ l], rule exI [of _ ls])
      using True by (simp add: Let_def)
  next
    case False
    with Cons.prems have d: "detected (forkedLayerLoop gci sha config ls)" by (simp add: Let_def)
    from Cons.IH [OF d] obtain pre lay post where h: "ls = pre @ lay # post"
      "\<forall>l\<in>set pre. \<not> forked (checkLayerFork gci sha config l)"
      "forked (checkLayerFork gci sha config lay)"
      "affectedNodes (forkedLayerLoop gci sha config ls)
         = Some (fc_minorityNodes (checkLayerFork gci sha config lay))"
      "affectedLayers (forkedLayerLoop gci sha config ls) = Some [lay]"
      "restartScope (forkedLayerLoop gci sha config ls)
         = (if int (length (fc_minorityNodes (checkLayerFork gci sha config lay)))
                \<ge> int (length (nodes config)) - 1
            then ScopeFullLayer else ScopeIndividualNode)" by blast
    show ?thesis
      apply (rule exI [of _ "l # pre"], rule exI [of _ lay], rule exI [of _ post])
      using False h by (simp add: Let_def)
  qed
qed

lemma forkedLayerLoop_detected_iff:
  "detected (forkedLayerLoop gci sha config ls)
     \<longleftrightarrow> (\<exists>l\<in>set ls. forked (checkLayerFork gci sha config l))"
  by (induction ls) (simp_all add: Let_def)

text \<open>
  The watchdog's own fork detector decides its restart scope by another test than
  \<^verbatim>\<open>detectForks\<close>: the full layer when at most one node is outside the minority.
\<close>

lemma detectForkedCluster_scope:
  assumes "forked (checkLayerFork gci sha config ml0)"
  shows "restartScope (detectForkedCluster gci sha config)
           = (if int (length (fc_minorityNodes (checkLayerFork gci sha config ml0)))
                  \<ge> int (length (nodes config)) - 1
              then ScopeFullLayer else ScopeIndividualNode)"
  using assms by (simp add: detectForkedCluster_def Let_def)

lemma nodes_exampleConfig:
  "nodes exampleConfig = [\<lparr>nc_name = ''node1'', nc_ip = ''10.0.0.1''\<rparr>]
     @ \<lparr>nc_name = ''node2'', nc_ip = ''10.0.0.2''\<rparr> # [\<lparr>nc_name = ''node3'', nc_ip = ''10.0.0.3''\<rparr>]"
  "ports exampleConfig ml0 = 9200"
  "snapshotStallMinutes exampleConfig = 4"
  by (simp_all add: exampleConfig_def)

lemma hash_example:
  "hashClusterPOV (join '','') [\<lparr>cm_id = ''p3''\<rparr>] = ''p3''"
  "hashClusterPOV (join '','') [\<lparr>cm_id = ''p2''\<rparr>, \<lparr>cm_id = ''p1''\<rparr>] = ''p1,p2''"
  by (simp_all add: hashClusterPOV_def)

lemma hash_exampleFour:
  "hashClusterPOV (join '','') [\<lparr>cm_id = ''p1''\<rparr>, \<lparr>cm_id = ''p2''\<rparr>] = ''p1,p2''"
  "hashClusterPOV (join '','') [\<lparr>cm_id = ''p3''\<rparr>, \<lparr>cm_id = ''p4''\<rparr>] = ''p3,p4''"
  by (simp_all add: hashClusterPOV_def)

lemma checkLayerFork_example:
  "checkLayerFork exampleClusterInfo (join '','') exampleConfig ml0
     = \<lparr>forked = True, fc_minorityNodes = [''10.0.0.3'']\<rparr>"
  by (simp add: checkLayerFork_def exampleConfig_def exampleClusterInfo_def hash_example
        countHash_def Let_def)

lemma checkLayerFork_exampleFour:
  "checkLayerFork exampleClusterInfoFour (join '','') exampleConfigFour ml0
     = \<lparr>forked = True, fc_minorityNodes = [''10.0.0.3'', ''10.0.0.4'']\<rparr>"
  by (simp add: checkLayerFork_def exampleConfigFour_def exampleClusterInfoFour_def
        hash_exampleFour countHash_def Let_def)

lemma checkLayerFork_exampleTwoDown:
  "checkLayerFork exampleClusterInfoTwoDown (join '','') exampleConfig ml0
     = \<lparr>forked = True, fc_minorityNodes = [''10.0.0.3'']\<rparr>"
  by (simp add: checkLayerFork_def exampleConfig_def exampleClusterInfoTwoDown_def hash_example
        countHash_def Let_def)

lemma detectForkedCluster_example:
  "detected (detectForkedCluster exampleClusterInfo (join '','') exampleConfig)
   \<and> restartScope (detectForkedCluster exampleClusterInfo (join '','') exampleConfig)
       = ScopeIndividualNode
   \<and> affectedNodes (detectForkedCluster exampleClusterInfo (join '','') exampleConfig)
       = Some [''10.0.0.3'']"
  by (simp add: detectForkedCluster_def checkLayerFork_example Let_def) (simp add: exampleConfig_def)

lemma detectForkedCluster_exampleFour:
  "detected (detectForkedCluster exampleClusterInfoFour (join '','') exampleConfigFour)
   \<and> affectedNodes (detectForkedCluster exampleClusterInfoFour (join '','') exampleConfigFour)
       = Some [''10.0.0.3'', ''10.0.0.4'']
   \<and> restartScope (detectForkedCluster exampleClusterInfoFour (join '','') exampleConfigFour)
       = ScopeIndividualNode"
  by (simp add: detectForkedCluster_def checkLayerFork_exampleFour Let_def)
     (simp add: exampleConfigFour_def)

section \<open>The majority partition and its ties\<close>




section \<open>Fork events and unreachable nodes\<close>

text \<open>
  C2 (as amended). Every \<^verbatim>\<open>FORK_DETECTED\<close> event of \<^verbatim>\<open>detectForks\<close> lists the minority nodes
  and suggests \<^verbatim>\<open>IndividualNode\<close> exactly when there are strictly fewer minority nodes than
  majority nodes, and \<^verbatim>\<open>FullLayer\<close> exactly when there are at least as many. Here the
  majority nodes are the nodes of the healthy views that hold the majority key, and
  minority and majority together are all the healthy views. Such an event is emitted
  exactly when the minority is not empty. The watchdog's \<^verbatim>\<open>detectForkedCluster\<close> follows
  another rule: it reports the first of the layers \<open>ml0\<close>, \<open>cl1\<close>, \<open>dl1\<close> whose minority is
  not empty, with that minority as the affected nodes, and its restart scope is the full
  layer exactly when the minority has at least as many nodes as there are configured
  nodes less one, and the individual node exactly when it has fewer.
\<close>
theorem fork_suggestedAction:
  "(\<forall>e\<in>set (detectForks s). condition e = FORK_DETECTED \<longrightarrow>
      nodeIds e = minorityNodes (findMajority s) \<and>
      (suggestedAction e = Some IndividualNode \<longleftrightarrow>
         length (minorityNodes (findMajority s)) < length (majorityNodes (findMajority s))) \<and>
      (suggestedAction e = Some FullLayer \<longleftrightarrow>
         length (minorityNodes (findMajority s)) \<ge> length (majorityNodes (findMajority s))) \<and>
      majorityNodes (findMajority s)
        = map view_nodeId (filter (\<lambda>v. clusterKey v = majorityKey (findMajority s))
                             (filter healthy (views s))) \<and>
      length (minorityNodes (findMajority s)) + length (majorityNodes (findMajority s))
        = length (filter healthy (views s)))
   \<and> ((\<exists>e\<in>set (detectForks s). condition e = FORK_DETECTED) \<longleftrightarrow>
        minorityNodes (findMajority s) \<noteq> [])
   \<and> (detected (detectForkedCluster gci sha config) \<longrightarrow>
        (\<exists>pre lay post. [ml0, cl1, dl1] = pre @ lay # post
           \<and> (\<forall>l\<in>set pre. \<not> forked (checkLayerFork gci sha config l))
           \<and> forked (checkLayerFork gci sha config lay)
           \<and> affectedNodes (detectForkedCluster gci sha config)
               = Some (fc_minorityNodes (checkLayerFork gci sha config lay))
           \<and> affectedLayers (detectForkedCluster gci sha config) = Some [lay]
           \<and> (restartScope (detectForkedCluster gci sha config) = ScopeFullLayer \<longleftrightarrow>
                int (length (fc_minorityNodes (checkLayerFork gci sha config lay)))
                  \<ge> int (length (nodes config)) - 1)
           \<and> (restartScope (detectForkedCluster gci sha config) = ScopeIndividualNode \<longleftrightarrow>
                int (length (fc_minorityNodes (checkLayerFork gci sha config lay)))
                  < int (length (nodes config)) - 1)))
   \<and> (detected (detectForkedCluster gci sha config) \<longleftrightarrow>
        (\<exists>l\<in>set [ml0, cl1, dl1].
            fc_minorityNodes (checkLayerFork gci sha config l) \<noteq> []))"
proof -
  have ev: "\<forall>e\<in>set (detectForks s). condition e = FORK_DETECTED \<longrightarrow>
      minorityNodes (findMajority s) \<noteq> [] \<and>
      nodeIds e = minorityNodes (findMajority s) \<and>
      (suggestedAction e = Some IndividualNode \<longleftrightarrow>
         length (minorityNodes (findMajority s)) < length (majorityNodes (findMajority s))) \<and>
      (suggestedAction e = Some FullLayer \<longleftrightarrow>
         length (minorityNodes (findMajority s)) \<ge> length (majorityNodes (findMajority s)))"
    by (auto simp: detectForks_def Let_def)
  have iff: "(\<exists>e\<in>set (detectForks s). condition e = FORK_DETECTED) \<longleftrightarrow>
        minorityNodes (findMajority s) \<noteq> []"
    by (auto simp: detectForks_def Let_def)
  have sizes: "majorityNodes (findMajority s)
        = map view_nodeId (filter (\<lambda>v. clusterKey v = majorityKey (findMajority s))
                             (filter healthy (views s))) \<and>
      length (minorityNodes (findMajority s)) + length (majorityNodes (findMajority s))
        = length (filter healthy (views s))"
    if "minorityNodes (findMajority s) \<noteq> []"
  proof -
    from that have ne: "filter healthy (views s) \<noteq> []" by (rule minority_only_if_healthy)
    from largest_group(1) [OF ne, where kf = clusterKey and vf = view_nodeId and ?k0.0 = "[]"]
    have "majorityNodes (findMajority s)
        = map view_nodeId (filter (\<lambda>v. clusterKey v = majorityKey (findMajority s))
                             (filter healthy (views s)))"
      unfolding findMajority_healthy [OF ne] .
    with minority_plus_majority [OF ne] show ?thesis by simp
  qed
  have first: "\<forall>e\<in>set (detectForks s). condition e = FORK_DETECTED \<longrightarrow>
      nodeIds e = minorityNodes (findMajority s) \<and>
      (suggestedAction e = Some IndividualNode \<longleftrightarrow>
         length (minorityNodes (findMajority s)) < length (majorityNodes (findMajority s))) \<and>
      (suggestedAction e = Some FullLayer \<longleftrightarrow>
         length (minorityNodes (findMajority s)) \<ge> length (majorityNodes (findMajority s))) \<and>
      majorityNodes (findMajority s)
        = map view_nodeId (filter (\<lambda>v. clusterKey v = majorityKey (findMajority s))
                             (filter healthy (views s))) \<and>
      length (minorityNodes (findMajority s)) + length (majorityNodes (findMajority s))
        = length (filter healthy (views s))"
    using ev sizes by blast
  have wd: "\<exists>pre lay post. [ml0, cl1, dl1] = pre @ lay # post
           \<and> (\<forall>l\<in>set pre. \<not> forked (checkLayerFork gci sha config l))
           \<and> forked (checkLayerFork gci sha config lay)
           \<and> affectedNodes (detectForkedCluster gci sha config)
               = Some (fc_minorityNodes (checkLayerFork gci sha config lay))
           \<and> affectedLayers (detectForkedCluster gci sha config) = Some [lay]
           \<and> (restartScope (detectForkedCluster gci sha config) = ScopeFullLayer \<longleftrightarrow>
                int (length (fc_minorityNodes (checkLayerFork gci sha config lay)))
                  \<ge> int (length (nodes config)) - 1)
           \<and> (restartScope (detectForkedCluster gci sha config) = ScopeIndividualNode \<longleftrightarrow>
                int (length (fc_minorityNodes (checkLayerFork gci sha config lay)))
                  < int (length (nodes config)) - 1)"
    if d: "detected (detectForkedCluster gci sha config)"
  proof -
    from d have "detected (forkedLayerLoop gci sha config [ml0, cl1, dl1])"
      by (simp only: detectForkedCluster_def)
    from forkedLayerLoop_detected [OF this] obtain pre lay post
      where h: "[ml0, cl1, dl1] = pre @ lay # post"
        "\<forall>l\<in>set pre. \<not> forked (checkLayerFork gci sha config l)"
        "forked (checkLayerFork gci sha config lay)"
        "affectedNodes (forkedLayerLoop gci sha config [ml0, cl1, dl1])
           = Some (fc_minorityNodes (checkLayerFork gci sha config lay))"
        "affectedLayers (forkedLayerLoop gci sha config [ml0, cl1, dl1]) = Some [lay]"
        "restartScope (forkedLayerLoop gci sha config [ml0, cl1, dl1])
           = (if int (length (fc_minorityNodes (checkLayerFork gci sha config lay)))
                  \<ge> int (length (nodes config)) - 1
              then ScopeFullLayer else ScopeIndividualNode)" by blast
    show ?thesis
      apply (rule exI [of _ pre], rule exI [of _ lay], rule exI [of _ post])
      unfolding detectForkedCluster_def using h by (simp split: if_splits)
  qed
  have diff: "detected (detectForkedCluster gci sha config) \<longleftrightarrow>
        (\<exists>l\<in>set [ml0, cl1, dl1].
            fc_minorityNodes (checkLayerFork gci sha config l) \<noteq> [])"
    unfolding detectForkedCluster_def forkedLayerLoop_detected_iff forked_iff_minority ..
  from first iff wd diff show ?thesis by (intro conjI impI)
qed

text \<open>
  C2 as stated fails in the watchdog: of four nodes split two against two, the minority
  has as many nodes as the majority, and the restart scope is the individual node, not
  the full layer.
\<close>
theorem detectForkedCluster_split_counterexample:
  "detected (detectForkedCluster exampleClusterInfoFour (join '','') exampleConfigFour)
   \<and> affectedNodes (detectForkedCluster exampleClusterInfoFour (join '','') exampleConfigFour)
       = Some [''10.0.0.3'', ''10.0.0.4'']
   \<and> map nc_ip (nodes exampleConfigFour)
       = [''10.0.0.1'', ''10.0.0.2'', ''10.0.0.3'', ''10.0.0.4'']
   \<and> restartScope (detectForkedCluster exampleClusterInfoFour (join '','') exampleConfigFour)
       = ScopeIndividualNode
   \<and> \<not> (restartScope (detectForkedCluster exampleClusterInfoFour (join '','') exampleConfigFour)
            = ScopeFullLayer
          \<longleftrightarrow> length [''10.0.0.3'', ''10.0.0.4''] \<ge> length [''10.0.0.1'', ''10.0.0.2''])"
  by (simp add: detectForkedCluster_exampleFour) (simp add: exampleConfigFour_def)

theorem fork_suggestedAction_witness:
  "(\<exists>e. detectForks snapshotTwoOne = [e] \<and> condition e = FORK_DETECTED
        \<and> nodeIds e = [''3''] \<and> suggestedAction e = Some IndividualNode)
   \<and> (\<exists>e. detectForks snapshotThreeWay = [e] \<and> condition e = FORK_DETECTED
        \<and> nodeIds e = [''2'', ''3''] \<and> suggestedAction e = Some FullLayer)
   \<and> affectedNodes (detectForkedCluster exampleClusterInfo (join '','') exampleConfig)
       = Some [''10.0.0.3'']
   \<and> affectedLayers (detectForkedCluster exampleClusterInfo (join '','') exampleConfig)
       = Some [ml0]
   \<and> restartScope (detectForkedCluster exampleClusterInfo (join '','') exampleConfig)
       = ScopeIndividualNode
   \<and> affectedNodes (detectForkedCluster exampleClusterInfoTwoDown (join '','') exampleConfig)
       = Some [''10.0.0.3'']
   \<and> restartScope (detectForkedCluster exampleClusterInfoTwoDown (join '','') exampleConfig)
       = ScopeIndividualNode"
proof -
  have a: "\<exists>e. detectForks snapshotTwoOne = [e] \<and> condition e = FORK_DETECTED"
    by (simp add: detectForks_def findMajority_snapshotTwoOne)
  have b: "\<exists>e. detectForks snapshotThreeWay = [e] \<and> condition e = FORK_DETECTED"
    by (simp add: detectForks_def findMajority_snapshotThreeWay)
  from a fork_suggestedAction [where s = snapshotTwoOne, THEN conjunct1]
  have r1: "\<exists>e. detectForks snapshotTwoOne = [e] \<and> condition e = FORK_DETECTED
        \<and> nodeIds e = [''3''] \<and> suggestedAction e = Some IndividualNode"
    by (auto simp: findMajority_snapshotTwoOne)
  from b fork_suggestedAction [where s = snapshotThreeWay, THEN conjunct1]
  have r2: "\<exists>e. detectForks snapshotThreeWay = [e] \<and> condition e = FORK_DETECTED
        \<and> nodeIds e = [''2'', ''3''] \<and> suggestedAction e = Some FullLayer"
    by (auto simp: findMajority_snapshotThreeWay)
  have first: "pre = [] \<and> lay = ml0"
    if "[ml0, cl1, dl1] = pre @ lay # post"
      "\<forall>l\<in>set pre. \<not> forked (checkLayerFork gci sha exampleConfig l)"
      "forked (checkLayerFork gci sha exampleConfig ml0)"
    for pre lay post gci sha
    using that by (cases pre) auto
  have len: "int (length (nodes exampleConfig)) - 1 = 2" by (simp add: nodes_exampleConfig)
  have f1: "forked (checkLayerFork exampleClusterInfo (join '','') exampleConfig ml0)"
    by (simp add: checkLayerFork_example)
  then have "\<exists>l\<in>set [ml0, cl1, dl1].
      fc_minorityNodes (checkLayerFork exampleClusterInfo (join '','') exampleConfig l) \<noteq> []"
    by (simp add: checkLayerFork_example)
  with fork_suggestedAction [where gci = exampleClusterInfo and sha = "join '',''"
        and config = exampleConfig, THEN conjunct2, THEN conjunct2]
  obtain pre lay post where h1: "[ml0, cl1, dl1] = pre @ lay # post"
      "\<forall>l\<in>set pre. \<not> forked (checkLayerFork exampleClusterInfo (join '','') exampleConfig l)"
      "affectedNodes (detectForkedCluster exampleClusterInfo (join '','') exampleConfig)
         = Some (fc_minorityNodes (checkLayerFork exampleClusterInfo (join '','') exampleConfig lay))"
      "affectedLayers (detectForkedCluster exampleClusterInfo (join '','') exampleConfig)
         = Some [lay]"
      "restartScope (detectForkedCluster exampleClusterInfo (join '','') exampleConfig)
           = ScopeIndividualNode \<longleftrightarrow>
         int (length (fc_minorityNodes
                (checkLayerFork exampleClusterInfo (join '','') exampleConfig lay)))
           < int (length (nodes exampleConfig)) - 1"
    by blast
  from first [OF h1(1) h1(2) f1] h1(3-5) len
  have r3: "affectedNodes (detectForkedCluster exampleClusterInfo (join '','') exampleConfig)
       = Some [''10.0.0.3'']
   \<and> affectedLayers (detectForkedCluster exampleClusterInfo (join '','') exampleConfig)
       = Some [ml0]
   \<and> restartScope (detectForkedCluster exampleClusterInfo (join '','') exampleConfig)
       = ScopeIndividualNode"
    by (simp add: checkLayerFork_example)
  have f2: "forked (checkLayerFork exampleClusterInfoTwoDown (join '','') exampleConfig ml0)"
    by (simp add: checkLayerFork_exampleTwoDown)
  then have "\<exists>l\<in>set [ml0, cl1, dl1].
      fc_minorityNodes (checkLayerFork exampleClusterInfoTwoDown (join '','') exampleConfig l) \<noteq> []"
    by (simp add: checkLayerFork_exampleTwoDown)
  with fork_suggestedAction [where gci = exampleClusterInfoTwoDown and sha = "join '',''"
        and config = exampleConfig, THEN conjunct2, THEN conjunct2]
  obtain pre lay post where h2: "[ml0, cl1, dl1] = pre @ lay # post"
      "\<forall>l\<in>set pre. \<not> forked (checkLayerFork exampleClusterInfoTwoDown (join '','') exampleConfig l)"
      "affectedNodes (detectForkedCluster exampleClusterInfoTwoDown (join '','') exampleConfig)
         = Some (fc_minorityNodes
                   (checkLayerFork exampleClusterInfoTwoDown (join '','') exampleConfig lay))"
      "restartScope (detectForkedCluster exampleClusterInfoTwoDown (join '','') exampleConfig)
           = ScopeIndividualNode \<longleftrightarrow>
         int (length (fc_minorityNodes
                (checkLayerFork exampleClusterInfoTwoDown (join '','') exampleConfig lay)))
           < int (length (nodes exampleConfig)) - 1"
    by blast
  from first [OF h2(1) h2(2) f2] h2(3-4) len
  have r4: "affectedNodes (detectForkedCluster exampleClusterInfoTwoDown (join '','') exampleConfig)
       = Some [''10.0.0.3'']
   \<and> restartScope (detectForkedCluster exampleClusterInfoTwoDown (join '','') exampleConfig)
       = ScopeIndividualNode"
    by (simp add: checkLayerFork_exampleTwoDown)
  from r1 r2 r3 r4 show ?thesis by (intro conjI) blast+
qed

text \<open>
  C3. The \<^verbatim>\<open>FORK_DETECTED\<close> events of a snapshot are those of the same snapshot with its
  error views deleted, and every minority node is the node of a healthy view, so an error
  view never adds to a fork. When some view is an error view, one \<^verbatim>\<open>NODE_UNREACHABLE\<close>
  event lists the nodes of all error views. When every view is an error view, that event
  is the only one.
\<close>
theorem error_views_never_in_minority:
  "filter (\<lambda>e. condition e = FORK_DETECTED) (detectForks s)
     = detectForks (s\<lparr>views := filter healthy (views s)\<rparr>)
   \<and> set (minorityNodes (findMajority s)) \<subseteq> view_nodeId ` set (filter healthy (views s))
   \<and> ((\<exists>v\<in>set (views s). \<not> healthy v) \<longrightarrow>
        (\<exists>e. filter (\<lambda>e. condition e = NODE_UNREACHABLE) (detectForks s) = [e]
           \<and> layer e = snap_layer s
           \<and> nodeIds e = map view_nodeId (filter (\<lambda>v. \<not> healthy v) (views s))))
   \<and> ((\<forall>v\<in>set (views s). \<not> healthy v) \<and> views s \<noteq> [] \<longrightarrow>
        (\<exists>e. detectForks s = [e] \<and> condition e = NODE_UNREACHABLE
           \<and> nodeIds e = map view_nodeId (views s)))"
proof (intro conjI impI)
  show "filter (\<lambda>e. condition e = FORK_DETECTED) (detectForks s)
          = detectForks (s\<lparr>views := filter healthy (views s)\<rparr>)"
    by (simp add: detectForks_def findMajority_healthy_only Let_def)
next
  show "set (minorityNodes (findMajority s)) \<subseteq> view_nodeId ` set (filter healthy (views s))"
    by (rule minority_subset_healthy)
next
  assume "\<exists>v\<in>set (views s). \<not> healthy v"
  then have "filter (\<lambda>v. truthy (view_error v)) (views s) \<noteq> []"
    by (auto simp: healthy_def filter_empty_conv)
  then show "\<exists>e. filter (\<lambda>e. condition e = NODE_UNREACHABLE) (detectForks s) = [e]
           \<and> layer e = snap_layer s
           \<and> nodeIds e = map view_nodeId (filter (\<lambda>v. \<not> healthy v) (views s))"
    by (simp add: detectForks_def Let_def unreachable_findMajority healthy_def)
next
  assume a: "(\<forall>v\<in>set (views s). \<not> healthy v) \<and> views s \<noteq> []"
  then have all: "\<forall>v\<in>set (views s). truthy (view_error v)" by (simp add: healthy_def)
  then have f: "filter (\<lambda>v. truthy (view_error v)) (views s) = views s" by simp
  from a f have "unreachable (findMajority s) \<noteq> []" by (simp add: unreachable_findMajority)
  with findMajority_all_errors [OF all] f
  show "\<exists>e. detectForks s = [e] \<and> condition e = NODE_UNREACHABLE
           \<and> nodeIds e = map view_nodeId (views s)"
    by (simp add: detectForks_def Let_def unreachable_findMajority)
qed

theorem error_views_never_in_minority_witness:
  "filter (\<lambda>e. condition e = FORK_DETECTED) (detectForks snapshotOneDown) = []
   \<and> (\<exists>e. filter (\<lambda>e. condition e = NODE_UNREACHABLE) (detectForks snapshotOneDown) = [e]
         \<and> nodeIds e = [''3''])
   \<and> (\<exists>e. detectForks snapshotAllDown = [e] \<and> condition e = NODE_UNREACHABLE
         \<and> nodeIds e = [''1'', ''2''])"
proof -
  have h1: "\<exists>v\<in>set (views snapshotOneDown). \<not> healthy v"
    by (simp add: snapshotOneDown_def exampleSnapshot_def healthy_exampleView)
  have h2: "(\<forall>v\<in>set (views snapshotAllDown). \<not> healthy v) \<and> views snapshotAllDown \<noteq> []"
    by (simp add: snapshotAllDown_def exampleSnapshot_def healthy_exampleView)
  have f: "detectForks (snapshotOneDown\<lparr>views := filter healthy (views snapshotOneDown)\<rparr>) = []"
    by (simp add: detectForks_def findMajority_healthy_only findMajority_snapshotOneDown)
  have v1: "map view_nodeId (filter (\<lambda>v. \<not> healthy v) (views snapshotOneDown)) = [''3'']"
    by (simp add: snapshotOneDown_def exampleSnapshot_def healthy_exampleView error_exampleView)
  have v2: "map view_nodeId (views snapshotAllDown) = [''1'', ''2'']"
    by (simp add: snapshotAllDown_def exampleSnapshot_def error_exampleView)
  from error_views_never_in_minority [of snapshotOneDown] h1 f v1
  have a: "filter (\<lambda>e. condition e = FORK_DETECTED) (detectForks snapshotOneDown) = []
       \<and> (\<exists>e. filter (\<lambda>e. condition e = NODE_UNREACHABLE) (detectForks snapshotOneDown) = [e]
             \<and> nodeIds e = [''3''])"
    by auto
  from error_views_never_in_minority [of snapshotAllDown] h2 v2
  have b: "\<exists>e. detectForks snapshotAllDown = [e] \<and> condition e = NODE_UNREACHABLE
         \<and> nodeIds e = [''1'', ''2'']"
    by auto
  from a b show ?thesis by blast
qed

section \<open>Polled views and cluster keys\<close>

lemma find_exampleNode:
  "find (\<lambda>l. lc_name l = GL0) (ni_layers exampleNode) = Some \<lparr>lc_name = GL0, lc_port = 9000\<rparr>"
  by (simp add: exampleNode_def)

text \<open>
  C8 (as amended). A polled view with an error has no peers, and its diagnostic is the
  \<^verbatim>\<open>not configured\<close> message when the node lacks the layer and otherwise the text of the
  rejection of the fetch. The converse fails: a view has no error and no peers exactly
  when the layer is configured and the fetch resolved with an empty array or with a
  value that is not an array.
\<close>
theorem pollNodeCluster_error_has_no_peers:
  "(view_error (pollNodeCluster node lay fetchFn nowIso) \<noteq> None \<longrightarrow>
      view_peers (pollNodeCluster node lay fetchFn nowIso) = [])
   \<and> (\<forall>d. view_error (pollNodeCluster node lay fetchFn nowIso) = Some d \<longrightarrow>
        (find (\<lambda>l. lc_name l = lay) (ni_layers node) = None \<and>
         d = ''Layer '' @ layerName_str lay @ '' not configured for node '' @ ni_nodeId node)
        \<or> (\<exists>layerConfig. find (\<lambda>l. lc_name l = lay) (ni_layers node) = Some layerConfig \<and>
              fetchFn (''http://'' @ ni_host node @ '':'' @ digits (lc_port layerConfig)
                         @ ''/cluster/info'') = Rejects d))
   \<and> (view_error (pollNodeCluster node lay fetchFn nowIso) = None \<and>
      view_peers (pollNodeCluster node lay fetchFn nowIso) = [] \<longleftrightarrow>
      (\<exists>layerConfig. find (\<lambda>l. lc_name l = lay) (ni_layers node) = Some layerConfig \<and>
         fetchFn (''http://'' @ ni_host node @ '':'' @ digits (lc_port layerConfig)
                    @ ''/cluster/info'') \<in> {ResolvesArray [], ResolvesOther}))"
  by (auto simp: pollNodeCluster_def Let_def split: option.splits FetchResult.splits)

text \<open>
  C8 as stated fails: a fetch that resolves with the empty array gives a view with no
  peers and no error.
\<close>
theorem pollNodeCluster_iff_counterexample:
  "\<not> (view_error (pollNodeCluster exampleNode GL0 (\<lambda>url. ResolvesArray []) ''now'') \<noteq> None
        \<longleftrightarrow> view_peers (pollNodeCluster exampleNode GL0 (\<lambda>url. ResolvesArray []) ''now'') = [])"
  unfolding pollNodeCluster_def find_exampleNode by (simp add: Let_def)

theorem pollNodeCluster_error_has_no_peers_witness:
  "view_error (pollNodeCluster exampleNode GL0 (\<lambda>url. Rejects ''Error: ECONNREFUSED'') ''now'')
     = Some ''Error: ECONNREFUSED''
   \<and> view_peers (pollNodeCluster exampleNode GL0 (\<lambda>url. Rejects ''Error: ECONNREFUSED'') ''now'')
     = []"
proof -
  have e: "view_error (pollNodeCluster exampleNode GL0 (\<lambda>url. Rejects ''Error: ECONNREFUSED'') ''now'')
             = Some ''Error: ECONNREFUSED''"
    unfolding pollNodeCluster_def find_exampleNode by (simp add: Let_def)
  with pollNodeCluster_error_has_no_peers
         [of exampleNode GL0 "\<lambda>url. Rejects ''Error: ECONNREFUSED''" "''now''"]
  show ?thesis by simp
qed

lemma sort_cong_mset: "mset xs = mset ys \<Longrightarrow> sort xs = sort (ys :: 'a::linorder list)"
  by (rule properties_for_sort) simp_all

text \<open>
  C9. The cluster key does not depend on the order of the peers: two peer lists that are
  permutations of each other give the same key, the list sorted by peer ID gives that
  key too, and for a healthy view the key is the sorted peer IDs joined by commas (or
  \<^verbatim>\<open>EMPTY\<close>). The watchdog's \<^verbatim>\<open>hashClusterPOV\<close> is invariant in the same way.
\<close>
theorem clusterKey_permutation_invariant:
  assumes "mset ps' = mset ps"
  shows "clusterKey (v\<lparr>view_peers := ps'\<rparr>) = clusterKey (v\<lparr>view_peers := ps\<rparr>)
       \<and> clusterKey (v\<lparr>view_peers := sort_key peer_id ps\<rparr>) = clusterKey (v\<lparr>view_peers := ps'\<rparr>)
       \<and> (\<not> truthy (view_error v) \<longrightarrow>
            clusterKey (v\<lparr>view_peers := ps'\<rparr>) =
              (if join '','' (sort (map peer_id ps)) = [] then ''EMPTY''
               else join '','' (sort (map peer_id ps))))
       \<and> hashClusterPOV sha256Json (map (\<lambda>p. \<lparr>cm_id = peer_id p\<rparr>) ps')
            = hashClusterPOV sha256Json (map (\<lambda>p. \<lparr>cm_id = peer_id p\<rparr>) ps)"
proof -
  from assms have "mset (map peer_id ps') = mset (map peer_id ps)" by simp
  then have a: "sort (map peer_id ps') = sort (map peer_id ps)" by (rule sort_cong_mset)
  have "mset (map peer_id (sort_key peer_id ps)) = mset (map peer_id ps)" by simp
  then have b: "sort (map peer_id (sort_key peer_id ps)) = sort (map peer_id ps)"
    by (rule sort_cong_mset)
  from a b show ?thesis by (simp add: clusterKey_def hashClusterPOV_def Let_def comp_def)
qed

theorem clusterKey_permutation_invariant_witness:
  "clusterKey (exampleView ''1'' [''peer-c'', ''peer-a''] None) = ''peer-a,peer-c''
   \<and> clusterKey (exampleView ''1'' [''peer-a'', ''peer-c''] None) = ''peer-a,peer-c''"
proof -
  have m: "mset [examplePeer ''peer-c'', examplePeer ''peer-a'']
             = mset [examplePeer ''peer-a'', examplePeer ''peer-c'']" by simp
  have e: "\<not> truthy (view_error (exampleView ''1'' [] None))" by (simp add: exampleView_def)
  have s': "(if ''peer-a,peer-c'' = [] then ''EMPTY'' else ''peer-a,peer-c'') = ''peer-a,peer-c''"
    by simp
  have v: "exampleView ''1'' [''peer-c'', ''peer-a''] None
             = (exampleView ''1'' [] None)\<lparr>view_peers := [examplePeer ''peer-c'', examplePeer ''peer-a'']\<rparr>"
          "exampleView ''1'' [''peer-a'', ''peer-c''] None
             = (exampleView ''1'' [] None)\<lparr>view_peers := [examplePeer ''peer-a'', examplePeer ''peer-c'']\<rparr>"
    by (simp_all add: exampleView_def examplePeer_def)
  have s: "join '','' (sort (map peer_id [examplePeer ''peer-a'', examplePeer ''peer-c'']))
             = ''peer-a,peer-c''"
    by (simp add: examplePeer_def)
  note inst = clusterKey_permutation_invariant
         [OF m, where v = "exampleView ''1'' [] None" and sha256Json = "join '',''"]
  from inst have k1:
    "clusterKey ((exampleView ''1'' [] None)
        \<lparr>view_peers := [examplePeer ''peer-c'', examplePeer ''peer-a'']\<rparr>)
       = clusterKey ((exampleView ''1'' [] None)
        \<lparr>view_peers := [examplePeer ''peer-a'', examplePeer ''peer-c'']\<rparr>)"
    by blast
  from inst e have k2:
    "clusterKey ((exampleView ''1'' [] None)
        \<lparr>view_peers := [examplePeer ''peer-c'', examplePeer ''peer-a'']\<rparr>)
       = ''peer-a,peer-c''"
    unfolding s s' by blast
  from k1 k2 show ?thesis unfolding v by metis
qed

section \<open>The GL0 ordinal fork\<close>

lemma fold_countOrdinal_pushGroup:
  "fold countOrdinal xs m = fold (pushGroup gs_ordinal gs_nodeId) xs m"
  by (induction xs arbitrary: m) (simp_all add: countOrdinal_def pushGroup_def Let_def)

lemma majorityOrdinalOf_threeWay:
  "majorityOrdinalOf [exampleState ''1'' 100, exampleState ''2'' 200, exampleState ''3'' 300] = 100"
  by (simp add: majorityOrdinalOf_def countOrdinal_def largerGroup_def exampleState_def Let_def)

lemma detectGL0Fork_threeWay:
  "\<exists>e. detectGL0Fork [exampleState ''1'' 100, exampleState ''2'' 200, exampleState ''3'' 300] ''now''
         = Some e"
  by (simp add: detectGL0Fork_def majorityOrdinalOf_threeWay Let_def exampleState_def)

text \<open>
  C10. \<^verbatim>\<open>detectGL0Fork\<close> returns no event for fewer than two states and when all states
  have the same ordinal. An event it returns is \<^verbatim>\<open>FORK_DETECTED\<close> on \<open>GL0\<close>, lists exactly
  the nodes whose ordinal differs from the majority ordinal, in input order, and always
  suggests \<^verbatim>\<open>IndividualNode\<close>. The majority ordinal is an ordinal of the input that no
  other ordinal outnumbers.
\<close>
theorem detectGL0Fork_events:
  "(length states < 2 \<longrightarrow> detectGL0Fork states ts = None)
   \<and> ((\<forall>s\<in>set states. \<forall>s'\<in>set states. gs_ordinal s = gs_ordinal s') \<longrightarrow>
        detectGL0Fork states ts = None)
   \<and> (\<forall>e. detectGL0Fork states ts = Some e \<longrightarrow>
        condition e = FORK_DETECTED \<and> layer e = GL0 \<and>
        nodeIds e = map gs_nodeId (filter (\<lambda>s. gs_ordinal s \<noteq> majorityOrdinalOf states) states) \<and>
        nodeIds e \<noteq> [] \<and>
        suggestedAction e = Some IndividualNode)
   \<and> (states \<noteq> [] \<longrightarrow>
        (\<exists>s\<in>set states. gs_ordinal s = majorityOrdinalOf states) \<and>
        (\<forall>s\<in>set states.
            length (filter (\<lambda>u. gs_ordinal u = gs_ordinal s) states)
              \<le> length (filter (\<lambda>u. gs_ordinal u = majorityOrdinalOf states) states)))"
proof -
  have maj: "(\<exists>s\<in>set states. gs_ordinal s = majorityOrdinalOf states) \<and>
        (\<forall>s\<in>set states.
            length (filter (\<lambda>u. gs_ordinal u = gs_ordinal s) states)
              \<le> length (filter (\<lambda>u. gs_ordinal u = majorityOrdinalOf states) states))"
    if ne: "states \<noteq> []"
  proof -
    let ?r = "fold largerGroup (fold (pushGroup gs_ordinal gs_nodeId) states []) (0, [])"
    have mo: "majorityOrdinalOf states = fst ?r"
      by (simp add: majorityOrdinalOf_def fold_countOrdinal_pushGroup)
    note lg = largest_group [OF ne, of gs_ordinal gs_nodeId 0]
    from lg(3) have "\<exists>s\<in>set states. gs_ordinal s = fst ?r" by auto
    moreover from lg(1) have "length (snd ?r) = length (filter (\<lambda>u. gs_ordinal u = fst ?r) states)"
      by simp
    with lg(2) have "\<forall>s\<in>set states.
            length (filter (\<lambda>u. gs_ordinal u = gs_ordinal s) states)
              \<le> length (filter (\<lambda>u. gs_ordinal u = fst ?r) states)" by simp
    ultimately show ?thesis unfolding mo by blast
  qed
  have short: "length states < 2 \<longrightarrow> detectGL0Fork states ts = None"
    by (simp add: detectGL0Fork_def)
  have same: "detectGL0Fork states ts = None"
    if a: "\<forall>s\<in>set states. \<forall>s'\<in>set states. gs_ordinal s = gs_ordinal s'"
  proof (cases "states = []")
    case True
    then show ?thesis by (simp add: detectGL0Fork_def)
  next
    case False
    from maj [OF False] obtain s where "s \<in> set states" "gs_ordinal s = majorityOrdinalOf states"
      by blast
    with a have "\<forall>u\<in>set states. gs_ordinal u = majorityOrdinalOf states" by metis
    then have "filter (\<lambda>s. gs_ordinal s \<noteq> majorityOrdinalOf states) states = []"
      by (simp add: filter_empty_conv)
    then show ?thesis by (simp add: detectGL0Fork_def Let_def)
  qed
  have ev: "\<forall>e. detectGL0Fork states ts = Some e \<longrightarrow>
        condition e = FORK_DETECTED \<and> layer e = GL0 \<and>
        nodeIds e = map gs_nodeId (filter (\<lambda>s. gs_ordinal s \<noteq> majorityOrdinalOf states) states) \<and>
        nodeIds e \<noteq> [] \<and>
        suggestedAction e = Some IndividualNode"
    by (auto simp: detectGL0Fork_def Let_def split: if_splits)
  from short same ev maj show ?thesis by blast
qed

theorem detectGL0Fork_events_witness:
  "(\<exists>e. detectGL0Fork [exampleState ''1'' 100, exampleState ''2'' 200, exampleState ''3'' 300] ''now''
           = Some e
         \<and> condition e = FORK_DETECTED \<and> layer e = GL0 \<and> nodeIds e = [''2'', ''3'']
         \<and> suggestedAction e = Some IndividualNode)
   \<and> detectGL0Fork [exampleState ''1'' 100, exampleState ''2'' 100] ''now'' = None
   \<and> detectGL0Fork [exampleState ''1'' 100] ''now'' = None"
proof -
  let ?three = "[exampleState ''1'' 100, exampleState ''2'' 200, exampleState ''3'' 300]"
  have f: "map gs_nodeId (filter (\<lambda>s. gs_ordinal s \<noteq> 100) ?three) = [''2'', ''3'']"
    by (simp add: exampleState_def)
  from detectGL0Fork_threeWay detectGL0Fork_events [of ?three "''now''"]
  have a: "\<exists>e. detectGL0Fork ?three ''now'' = Some e
         \<and> condition e = FORK_DETECTED \<and> layer e = GL0 \<and> nodeIds e = [''2'', ''3'']
         \<and> suggestedAction e = Some IndividualNode"
    unfolding majorityOrdinalOf_threeWay f by blast
  have same: "\<forall>s\<in>set [exampleState ''1'' 100, exampleState ''2'' 100].
                \<forall>s'\<in>set [exampleState ''1'' 100, exampleState ''2'' 100].
                  gs_ordinal s = gs_ordinal s'"
    by (simp add: exampleState_def)
  with detectGL0Fork_events [of "[exampleState ''1'' 100, exampleState ''2'' 100]" "''now''"]
  have b: "detectGL0Fork [exampleState ''1'' 100, exampleState ''2'' 100] ''now'' = None"
    by blast
  have "length [exampleState ''1'' 100] < 2" by simp
  with detectGL0Fork_events [of "[exampleState ''1'' 100]" "''now''"]
  have c: "detectGL0Fork [exampleState ''1'' 100] ''now'' = None" by blast
  from a b c show ?thesis by blast
qed

section \<open>The watchdog's stall detector\<close>

lemma firstOrdinal_none:
  "\<forall>n\<in>set ns. glo (nc_ip n) port ml0 < 0 \<Longrightarrow> firstOrdinal glo port ns = (- 1, map nc_ip ns)"
  by (induction ns) (simp_all add: Let_def)

lemma firstOrdinal_first:
  "\<forall>n\<in>set pre. glo (nc_ip n) port ml0 < 0 \<Longrightarrow> glo (nc_ip n) port ml0 \<ge> 0 \<Longrightarrow>
   firstOrdinal glo port (pre @ n # post) = (glo (nc_ip n) port ml0, map nc_ip pre @ [nc_ip n])"
  by (induction pre) (simp_all add: Let_def)

lemma firstOrdinal_examples:
  "firstOrdinal exampleOrdinal (ports exampleConfig ml0) (nodes exampleConfig)
     = (500, [''10.0.0.1'', ''10.0.0.2''])"
  "firstOrdinal exampleOrdinalLagging (ports exampleConfig ml0) (nodes exampleConfig)
     = (499, [''10.0.0.1'', ''10.0.0.2'', ''10.0.0.3''])"
  "firstOrdinal (\<lambda>ip port lay. - 1) (ports exampleConfig ml0) (nodes exampleConfig)
     = (- 1, [''10.0.0.1'', ''10.0.0.2'', ''10.0.0.3''])"
  by (simp_all add: nodes_exampleConfig exampleOrdinal_def exampleOrdinalLagging_def)

text \<open>
  The watchdog's stall state is overwritten on every change of the ordinal, smaller or
  larger; it is not a \<^verbatim>\<open>StallTracker\<close>. Ticks that see the recorded ordinal, or reach no
  node, leave it as it is.
\<close>

lemma detectSnapshotsStopped_resets_on_change:
  assumes "fst (firstOrdinal glo (ports config ml0) (nodes config)) = c" "0 \<le> c"
    "c \<noteq> lastKnownOrdinal st"
  shows "snd (detectSnapshotsStopped glo toFixed1 now config st)
           = \<lparr>lastKnownOrdinal = c, lastOrdinalChangeTime = now\<rparr>"
  using assms by (simp add: detectSnapshotsStopped_def Let_def)

lemma stallTicks_plateau:
  "\<forall>tk\<in>set ticks.
      fst (firstOrdinal (fst tk) (ports config ml0) (nodes config)) = lastKnownOrdinal st
      \<or> fst (firstOrdinal (fst tk) (ports config ml0) (nodes config)) < 0
   \<Longrightarrow> stallTicks toFixed1 config ticks st = st"
proof (induction ticks)
  case Nil
  then show ?case by simp
next
  case (Cons tk ticks)
  obtain g t where tk: "tk = (g, t)" by (cases tk)
  from Cons.prems tk
  have "fst (firstOrdinal g (ports config ml0) (nodes config)) = lastKnownOrdinal st
        \<or> fst (firstOrdinal g (ports config ml0) (nodes config)) < 0" by simp
  then have "snd (detectSnapshotsStopped g toFixed1 t config st) = st"
    by (auto simp: detectSnapshotsStopped_def Let_def)
  with Cons tk show ?case by simp
qed

lemma detectSnapshotsStopped_same:
  assumes "fst (firstOrdinal glo (ports config ml0) (nodes config)) = lastKnownOrdinal st"
    "0 \<le> lastKnownOrdinal st"
  shows "(detected (fst (detectSnapshotsStopped glo toFixed1 now config st))
            \<longleftrightarrow> (of_int (now - lastOrdinalChangeTime st) / 60000 :: rat)
                   \<ge> of_int (snapshotStallMinutes config))"
    and "detected (fst (detectSnapshotsStopped glo toFixed1 now config st)) \<Longrightarrow>
           dr_condition (fst (detectSnapshotsStopped glo toFixed1 now config st))
             = ''SnapshotsStopped''
         \<and> restartScope (fst (detectSnapshotsStopped glo toFixed1 now config st))
             = ScopeFullMetagraph
         \<and> affectedLayers (fst (detectSnapshotsStopped glo toFixed1 now config st))
             = Some [ml0, cl1, dl1]
         \<and> affectedNodes (fst (detectSnapshotsStopped glo toFixed1 now config st))
             = Some (map nc_ip (nodes config))"
  using assms by (auto simp: detectSnapshotsStopped_def Let_def notStopped_def split: if_splits)

text \<open>
  C6. The stall detector asks the nodes in configured order and stops at the first
  ordinal that is not negative. When every node answers a negative ordinal, all were
  asked, nothing is detected and the state is unchanged. When node \<open>n\<close> is the first with
  a non-negative ordinal, exactly the nodes up to \<open>n\<close> were asked and its ordinal is the
  one used; a stall is detected exactly when that ordinal equals the last known one and
  the time since it last changed is at least \<^verbatim>\<open>snapshotStallMinutes\<close>, and then the result
  asks for a full-metagraph restart of the layers \<open>ml0\<close>, \<open>cl1\<close>, \<open>dl1\<close> on all nodes; an
  ordinal equal to the last known one leaves the state as it was, any other ordinal is
  recorded with the time of the tick. Over a run of ticks: once a tick at time \<open>t1\<close> has
  seen a new ordinal \<open>c\<close>, and every tick after it has seen \<open>c\<close> again or reached no node,
  the state is \<open>c\<close> since \<open>t1\<close>, and a tick at time \<open>t2\<close> that sees \<open>c\<close> reports the stall
  exactly when \<open>t2 - t1\<close> is at least \<^verbatim>\<open>snapshotStallMinutes\<close> minutes.
\<close>
theorem detectSnapshotsStopped_flow:
  "((\<forall>n\<in>set (nodes config). glo (nc_ip n) (ports config ml0) ml0 < 0) \<longrightarrow>
      snd (firstOrdinal glo (ports config ml0) (nodes config)) = map nc_ip (nodes config) \<and>
      \<not> detected (fst (detectSnapshotsStopped glo toFixed1 now config st)) \<and>
      snd (detectSnapshotsStopped glo toFixed1 now config st) = st)
   \<and> (nodes config = pre @ n # post \<and>
       (\<forall>m\<in>set pre. glo (nc_ip m) (ports config ml0) ml0 < 0) \<and>
       glo (nc_ip n) (ports config ml0) ml0 \<ge> 0 \<longrightarrow>
      firstOrdinal glo (ports config ml0) (nodes config)
        = (glo (nc_ip n) (ports config ml0) ml0, map nc_ip pre @ [nc_ip n]) \<and>
      (if glo (nc_ip n) (ports config ml0) ml0 = lastKnownOrdinal st \<and>
          (of_int (now - lastOrdinalChangeTime st) / 60000 :: rat)
            \<ge> of_int (snapshotStallMinutes config)
       then detected (fst (detectSnapshotsStopped glo toFixed1 now config st)) \<and>
            dr_condition (fst (detectSnapshotsStopped glo toFixed1 now config st))
              = ''SnapshotsStopped'' \<and>
            restartScope (fst (detectSnapshotsStopped glo toFixed1 now config st))
              = ScopeFullMetagraph \<and>
            affectedLayers (fst (detectSnapshotsStopped glo toFixed1 now config st))
              = Some [ml0, cl1, dl1] \<and>
            affectedNodes (fst (detectSnapshotsStopped glo toFixed1 now config st))
              = Some (map nc_ip (nodes config)) \<and>
            snd (detectSnapshotsStopped glo toFixed1 now config st) = st
       else \<not> detected (fst (detectSnapshotsStopped glo toFixed1 now config st))) \<and>
      snd (detectSnapshotsStopped glo toFixed1 now config st)
        = (if glo (nc_ip n) (ports config ml0) ml0 = lastKnownOrdinal st then st
           else \<lparr>lastKnownOrdinal = glo (nc_ip n) (ports config ml0) ml0,
                 lastOrdinalChangeTime = now\<rparr>))
   \<and> (0 \<le> c \<and> c \<noteq> lastKnownOrdinal st0 \<and>
       fst (firstOrdinal glo1 (ports config ml0) (nodes config)) = c \<and>
       (\<forall>tk\<in>set mid. fst (firstOrdinal (fst tk) (ports config ml0) (nodes config)) = c
                      \<or> fst (firstOrdinal (fst tk) (ports config ml0) (nodes config)) < 0) \<and>
       fst (firstOrdinal glo2 (ports config ml0) (nodes config)) = c \<longrightarrow>
      stallTicks toFixed1 config ((glo1, t1) # mid) st0
        = \<lparr>lastKnownOrdinal = c, lastOrdinalChangeTime = t1\<rparr> \<and>
      (detected (fst (detectSnapshotsStopped glo2 toFixed1 t2 config
                        (stallTicks toFixed1 config ((glo1, t1) # mid) st0)))
         \<longleftrightarrow> (of_int (t2 - t1) / 60000 :: rat) \<ge> of_int (snapshotStallMinutes config)) \<and>
      (detected (fst (detectSnapshotsStopped glo2 toFixed1 t2 config
                        (stallTicks toFixed1 config ((glo1, t1) # mid) st0))) \<longrightarrow>
         dr_condition (fst (detectSnapshotsStopped glo2 toFixed1 t2 config
                        (stallTicks toFixed1 config ((glo1, t1) # mid) st0)))
           = ''SnapshotsStopped'' \<and>
         restartScope (fst (detectSnapshotsStopped glo2 toFixed1 t2 config
                        (stallTicks toFixed1 config ((glo1, t1) # mid) st0)))
           = ScopeFullMetagraph \<and>
         affectedLayers (fst (detectSnapshotsStopped glo2 toFixed1 t2 config
                        (stallTicks toFixed1 config ((glo1, t1) # mid) st0)))
           = Some [ml0, cl1, dl1] \<and>
         affectedNodes (fst (detectSnapshotsStopped glo2 toFixed1 t2 config
                        (stallTicks toFixed1 config ((glo1, t1) # mid) st0)))
           = Some (map nc_ip (nodes config))))"
proof -
  have A: "(\<forall>n\<in>set (nodes config). glo (nc_ip n) (ports config ml0) ml0 < 0) \<longrightarrow>
      snd (firstOrdinal glo (ports config ml0) (nodes config)) = map nc_ip (nodes config) \<and>
      \<not> detected (fst (detectSnapshotsStopped glo toFixed1 now config st)) \<and>
      snd (detectSnapshotsStopped glo toFixed1 now config st) = st"
  proof
    assume a: "\<forall>n\<in>set (nodes config). glo (nc_ip n) (ports config ml0) ml0 < 0"
    from a firstOrdinal_none [of "nodes config" glo "ports config ml0"]
    show "snd (firstOrdinal glo (ports config ml0) (nodes config)) = map nc_ip (nodes config) \<and>
      \<not> detected (fst (detectSnapshotsStopped glo toFixed1 now config st)) \<and>
      snd (detectSnapshotsStopped glo toFixed1 now config st) = st"
      by (simp add: detectSnapshotsStopped_def notStopped_def)
  qed
  have B: "nodes config = pre @ n # post \<and>
       (\<forall>m\<in>set pre. glo (nc_ip m) (ports config ml0) ml0 < 0) \<and>
       glo (nc_ip n) (ports config ml0) ml0 \<ge> 0 \<longrightarrow>
      firstOrdinal glo (ports config ml0) (nodes config)
        = (glo (nc_ip n) (ports config ml0) ml0, map nc_ip pre @ [nc_ip n]) \<and>
      (if glo (nc_ip n) (ports config ml0) ml0 = lastKnownOrdinal st \<and>
          (of_int (now - lastOrdinalChangeTime st) / 60000 :: rat)
            \<ge> of_int (snapshotStallMinutes config)
       then detected (fst (detectSnapshotsStopped glo toFixed1 now config st)) \<and>
            dr_condition (fst (detectSnapshotsStopped glo toFixed1 now config st))
              = ''SnapshotsStopped'' \<and>
            restartScope (fst (detectSnapshotsStopped glo toFixed1 now config st))
              = ScopeFullMetagraph \<and>
            affectedLayers (fst (detectSnapshotsStopped glo toFixed1 now config st))
              = Some [ml0, cl1, dl1] \<and>
            affectedNodes (fst (detectSnapshotsStopped glo toFixed1 now config st))
              = Some (map nc_ip (nodes config)) \<and>
            snd (detectSnapshotsStopped glo toFixed1 now config st) = st
       else \<not> detected (fst (detectSnapshotsStopped glo toFixed1 now config st))) \<and>
      snd (detectSnapshotsStopped glo toFixed1 now config st)
        = (if glo (nc_ip n) (ports config ml0) ml0 = lastKnownOrdinal st then st
           else \<lparr>lastKnownOrdinal = glo (nc_ip n) (ports config ml0) ml0,
                 lastOrdinalChangeTime = now\<rparr>)"
  proof
    assume a: "nodes config = pre @ n # post \<and>
       (\<forall>m\<in>set pre. glo (nc_ip m) (ports config ml0) ml0 < 0) \<and>
       glo (nc_ip n) (ports config ml0) ml0 \<ge> 0"
    then have f: "firstOrdinal glo (ports config ml0) (nodes config)
        = (glo (nc_ip n) (ports config ml0) ml0, map nc_ip pre @ [nc_ip n])"
      using firstOrdinal_first [of pre glo "ports config ml0" n post] by simp
    from a have nn: "\<not> glo (nc_ip n) (ports config ml0) ml0 < 0" by simp
    have r: "if glo (nc_ip n) (ports config ml0) ml0 = lastKnownOrdinal st \<and>
          (of_int (now - lastOrdinalChangeTime st) / 60000 :: rat)
            \<ge> of_int (snapshotStallMinutes config)
       then detected (fst (detectSnapshotsStopped glo toFixed1 now config st)) \<and>
            dr_condition (fst (detectSnapshotsStopped glo toFixed1 now config st))
              = ''SnapshotsStopped'' \<and>
            restartScope (fst (detectSnapshotsStopped glo toFixed1 now config st))
              = ScopeFullMetagraph \<and>
            affectedLayers (fst (detectSnapshotsStopped glo toFixed1 now config st))
              = Some [ml0, cl1, dl1] \<and>
            affectedNodes (fst (detectSnapshotsStopped glo toFixed1 now config st))
              = Some (map nc_ip (nodes config)) \<and>
            snd (detectSnapshotsStopped glo toFixed1 now config st) = st
       else \<not> detected (fst (detectSnapshotsStopped glo toFixed1 now config st))"
      using nn by (auto simp: detectSnapshotsStopped_def f notStopped_def Let_def)
    have s: "snd (detectSnapshotsStopped glo toFixed1 now config st)
        = (if glo (nc_ip n) (ports config ml0) ml0 = lastKnownOrdinal st then st
           else \<lparr>lastKnownOrdinal = glo (nc_ip n) (ports config ml0) ml0,
                 lastOrdinalChangeTime = now\<rparr>)"
      using nn by (auto simp: detectSnapshotsStopped_def f Let_def)
    from f r s show "firstOrdinal glo (ports config ml0) (nodes config)
        = (glo (nc_ip n) (ports config ml0) ml0, map nc_ip pre @ [nc_ip n]) \<and>
      (if glo (nc_ip n) (ports config ml0) ml0 = lastKnownOrdinal st \<and>
          (of_int (now - lastOrdinalChangeTime st) / 60000 :: rat)
            \<ge> of_int (snapshotStallMinutes config)
       then detected (fst (detectSnapshotsStopped glo toFixed1 now config st)) \<and>
            dr_condition (fst (detectSnapshotsStopped glo toFixed1 now config st))
              = ''SnapshotsStopped'' \<and>
            restartScope (fst (detectSnapshotsStopped glo toFixed1 now config st))
              = ScopeFullMetagraph \<and>
            affectedLayers (fst (detectSnapshotsStopped glo toFixed1 now config st))
              = Some [ml0, cl1, dl1] \<and>
            affectedNodes (fst (detectSnapshotsStopped glo toFixed1 now config st))
              = Some (map nc_ip (nodes config)) \<and>
            snd (detectSnapshotsStopped glo toFixed1 now config st) = st
       else \<not> detected (fst (detectSnapshotsStopped glo toFixed1 now config st))) \<and>
      snd (detectSnapshotsStopped glo toFixed1 now config st)
        = (if glo (nc_ip n) (ports config ml0) ml0 = lastKnownOrdinal st then st
           else \<lparr>lastKnownOrdinal = glo (nc_ip n) (ports config ml0) ml0,
                 lastOrdinalChangeTime = now\<rparr>)" by (intro conjI)
  qed
  have C: "0 \<le> c \<and> c \<noteq> lastKnownOrdinal st0 \<and>
       fst (firstOrdinal glo1 (ports config ml0) (nodes config)) = c \<and>
       (\<forall>tk\<in>set mid. fst (firstOrdinal (fst tk) (ports config ml0) (nodes config)) = c
                      \<or> fst (firstOrdinal (fst tk) (ports config ml0) (nodes config)) < 0) \<and>
       fst (firstOrdinal glo2 (ports config ml0) (nodes config)) = c \<longrightarrow>
      stallTicks toFixed1 config ((glo1, t1) # mid) st0
        = \<lparr>lastKnownOrdinal = c, lastOrdinalChangeTime = t1\<rparr> \<and>
      (detected (fst (detectSnapshotsStopped glo2 toFixed1 t2 config
                        (stallTicks toFixed1 config ((glo1, t1) # mid) st0)))
         \<longleftrightarrow> (of_int (t2 - t1) / 60000 :: rat) \<ge> of_int (snapshotStallMinutes config)) \<and>
      (detected (fst (detectSnapshotsStopped glo2 toFixed1 t2 config
                        (stallTicks toFixed1 config ((glo1, t1) # mid) st0))) \<longrightarrow>
         dr_condition (fst (detectSnapshotsStopped glo2 toFixed1 t2 config
                        (stallTicks toFixed1 config ((glo1, t1) # mid) st0)))
           = ''SnapshotsStopped'' \<and>
         restartScope (fst (detectSnapshotsStopped glo2 toFixed1 t2 config
                        (stallTicks toFixed1 config ((glo1, t1) # mid) st0)))
           = ScopeFullMetagraph \<and>
         affectedLayers (fst (detectSnapshotsStopped glo2 toFixed1 t2 config
                        (stallTicks toFixed1 config ((glo1, t1) # mid) st0)))
           = Some [ml0, cl1, dl1] \<and>
         affectedNodes (fst (detectSnapshotsStopped glo2 toFixed1 t2 config
                        (stallTicks toFixed1 config ((glo1, t1) # mid) st0)))
           = Some (map nc_ip (nodes config)))"
  proof
    assume a: "0 \<le> c \<and> c \<noteq> lastKnownOrdinal st0 \<and>
       fst (firstOrdinal glo1 (ports config ml0) (nodes config)) = c \<and>
       (\<forall>tk\<in>set mid. fst (firstOrdinal (fst tk) (ports config ml0) (nodes config)) = c
                      \<or> fst (firstOrdinal (fst tk) (ports config ml0) (nodes config)) < 0) \<and>
       fst (firstOrdinal glo2 (ports config ml0) (nodes config)) = c"
    let ?s1 = "\<lparr>lastKnownOrdinal = c, lastOrdinalChangeTime = t1\<rparr>"
    from a have first: "snd (detectSnapshotsStopped glo1 toFixed1 t1 config st0) = ?s1"
      using detectSnapshotsStopped_resets_on_change [of glo1 config c st0 toFixed1 t1] by simp
    from a have "\<forall>tk\<in>set mid.
        fst (firstOrdinal (fst tk) (ports config ml0) (nodes config)) = lastKnownOrdinal ?s1
        \<or> fst (firstOrdinal (fst tk) (ports config ml0) (nodes config)) < 0" by simp
    then have "stallTicks toFixed1 config mid ?s1 = ?s1" by (rule stallTicks_plateau)
    with first have st: "stallTicks toFixed1 config ((glo1, t1) # mid) st0 = ?s1" by simp
    from a have same: "fst (firstOrdinal glo2 (ports config ml0) (nodes config))
                         = lastKnownOrdinal ?s1" "0 \<le> lastKnownOrdinal ?s1" by simp_all
    note d = detectSnapshotsStopped_same [OF same, of toFixed1 t2]
    from d(1) have d1: "detected (fst (detectSnapshotsStopped glo2 toFixed1 t2 config ?s1))
         \<longleftrightarrow> (of_int (t2 - t1) / 60000 :: rat) \<ge> of_int (snapshotStallMinutes config)"
      by simp
    from st d1 d(2) show "stallTicks toFixed1 config ((glo1, t1) # mid) st0
        = \<lparr>lastKnownOrdinal = c, lastOrdinalChangeTime = t1\<rparr> \<and>
      (detected (fst (detectSnapshotsStopped glo2 toFixed1 t2 config
                        (stallTicks toFixed1 config ((glo1, t1) # mid) st0)))
         \<longleftrightarrow> (of_int (t2 - t1) / 60000 :: rat) \<ge> of_int (snapshotStallMinutes config)) \<and>
      (detected (fst (detectSnapshotsStopped glo2 toFixed1 t2 config
                        (stallTicks toFixed1 config ((glo1, t1) # mid) st0))) \<longrightarrow>
         dr_condition (fst (detectSnapshotsStopped glo2 toFixed1 t2 config
                        (stallTicks toFixed1 config ((glo1, t1) # mid) st0)))
           = ''SnapshotsStopped'' \<and>
         restartScope (fst (detectSnapshotsStopped glo2 toFixed1 t2 config
                        (stallTicks toFixed1 config ((glo1, t1) # mid) st0)))
           = ScopeFullMetagraph \<and>
         affectedLayers (fst (detectSnapshotsStopped glo2 toFixed1 t2 config
                        (stallTicks toFixed1 config ((glo1, t1) # mid) st0)))
           = Some [ml0, cl1, dl1] \<and>
         affectedNodes (fst (detectSnapshotsStopped glo2 toFixed1 t2 config
                        (stallTicks toFixed1 config ((glo1, t1) # mid) st0)))
           = Some (map nc_ip (nodes config)))"
      unfolding st by blast
  qed
  from A B C show ?thesis by (intro conjI)
qed

theorem detectSnapshotsStopped_flow_witness:
  "firstOrdinal exampleOrdinal 9200 (nodes exampleConfig) = (500, [''10.0.0.1'', ''10.0.0.2''])
   \<and> snd (detectSnapshotsStopped exampleOrdinal (\<lambda>m. ''4.1'') 1000 exampleConfig
            (initialStallState 0))
       = \<lparr>lastKnownOrdinal = 500, lastOrdinalChangeTime = 1000\<rparr>
   \<and> stallTicks (\<lambda>m. ''4.1'') exampleConfig
        [(exampleOrdinal, 1000), (exampleOrdinal, 61000), (\<lambda>ip port lay. - 1, 121000)]
        (initialStallState 0)
       = \<lparr>lastKnownOrdinal = 500, lastOrdinalChangeTime = 1000\<rparr>
   \<and> detected (fst (detectSnapshotsStopped exampleOrdinal (\<lambda>m. ''4.1'') 247000 exampleConfig
        (stallTicks (\<lambda>m. ''4.1'') exampleConfig
           [(exampleOrdinal, 1000), (exampleOrdinal, 61000), (\<lambda>ip port lay. - 1, 121000)]
           (initialStallState 0))))
   \<and> restartScope (fst (detectSnapshotsStopped exampleOrdinal (\<lambda>m. ''4.1'') 247000 exampleConfig
        (stallTicks (\<lambda>m. ''4.1'') exampleConfig
           [(exampleOrdinal, 1000), (exampleOrdinal, 61000), (\<lambda>ip port lay. - 1, 121000)]
           (initialStallState 0)))) = ScopeFullMetagraph
   \<and> affectedLayers (fst (detectSnapshotsStopped exampleOrdinal (\<lambda>m. ''4.1'') 247000 exampleConfig
        (stallTicks (\<lambda>m. ''4.1'') exampleConfig
           [(exampleOrdinal, 1000), (exampleOrdinal, 61000), (\<lambda>ip port lay. - 1, 121000)]
           (initialStallState 0)))) = Some [ml0, cl1, dl1]
   \<and> affectedNodes (fst (detectSnapshotsStopped exampleOrdinal (\<lambda>m. ''4.1'') 247000 exampleConfig
        (stallTicks (\<lambda>m. ''4.1'') exampleConfig
           [(exampleOrdinal, 1000), (exampleOrdinal, 61000), (\<lambda>ip port lay. - 1, 121000)]
           (initialStallState 0)))) = Some [''10.0.0.1'', ''10.0.0.2'', ''10.0.0.3'']
   \<and> \<not> detected (fst (detectSnapshotsStopped exampleOrdinal (\<lambda>m. ''4.1'') 200000 exampleConfig
        (stallTicks (\<lambda>m. ''4.1'') exampleConfig
           [(exampleOrdinal, 1000), (exampleOrdinal, 61000), (\<lambda>ip port lay. - 1, 121000)]
           (initialStallState 0))))
   \<and> \<not> detected (fst (detectSnapshotsStopped (\<lambda>ip port lay. - 1) (\<lambda>m. ''4.1'') 247000
        exampleConfig \<lparr>lastKnownOrdinal = 500, lastOrdinalChangeTime = 1000\<rparr>))"
proof -
  let ?fmt = "\<lambda>m :: rat. ''4.1''"
  let ?down = "\<lambda>(ip :: string) (port :: nat) (lay :: Layer). - 1 :: int"
  let ?mid = "[(exampleOrdinal, 61000 :: int), (?down, 121000)]"
  let ?n1 = "\<lparr>nc_name = ''node1'', nc_ip = ''10.0.0.1''\<rparr>"
  let ?n2 = "\<lparr>nc_name = ''node2'', nc_ip = ''10.0.0.2''\<rparr>"
  let ?n3 = "\<lparr>nc_name = ''node3'', nc_ip = ''10.0.0.3''\<rparr>"
  let ?st = "stallTicks ?fmt exampleConfig ((exampleOrdinal, 1000) # ?mid) (initialStallState 0)"
  have h: "nodes exampleConfig = [?n1] @ ?n2 # [?n3] \<and>
       (\<forall>m\<in>set [?n1]. exampleOrdinal (nc_ip m) (ports exampleConfig ml0) ml0 < 0) \<and>
       exampleOrdinal (nc_ip ?n2) (ports exampleConfig ml0) ml0 \<ge> 0"
    by (simp add: nodes_exampleConfig exampleOrdinal_def)
  have v: "exampleOrdinal (nc_ip ?n2) (ports exampleConfig ml0) ml0 = 500"
    by (simp add: exampleOrdinal_def)
  have l0: "lastKnownOrdinal (initialStallState 0) = - 1" by (simp add: initialStallState_def)
  have ips: "map nc_ip (nodes exampleConfig) = [''10.0.0.1'', ''10.0.0.2'', ''10.0.0.3'']"
    by (simp add: nodes_exampleConfig)
  from h v l0
    detectSnapshotsStopped_flow
      [where config = exampleConfig and glo = exampleOrdinal and pre = "[?n1]" and n = ?n2
         and post = "[?n3]" and now = 1000 and st = "initialStallState 0"
         and ?toFixed1.0 = ?fmt, THEN conjunct2, THEN conjunct1]
  have a: "firstOrdinal exampleOrdinal 9200 (nodes exampleConfig)
             = (500, [''10.0.0.1'', ''10.0.0.2''])
   \<and> snd (detectSnapshotsStopped exampleOrdinal ?fmt 1000 exampleConfig (initialStallState 0))
       = \<lparr>lastKnownOrdinal = 500, lastOrdinalChangeTime = 1000\<rparr>"
    by (simp add: nodes_exampleConfig)
  have p: "(0 :: int) \<le> 500 \<and> 500 \<noteq> lastKnownOrdinal (initialStallState 0) \<and>
       fst (firstOrdinal exampleOrdinal (ports exampleConfig ml0) (nodes exampleConfig)) = 500 \<and>
       (\<forall>tk\<in>set ?mid.
           fst (firstOrdinal (fst tk) (ports exampleConfig ml0) (nodes exampleConfig)) = 500
           \<or> fst (firstOrdinal (fst tk) (ports exampleConfig ml0) (nodes exampleConfig)) < 0) \<and>
       fst (firstOrdinal exampleOrdinal (ports exampleConfig ml0) (nodes exampleConfig)) = 500"
    by (simp add: firstOrdinal_examples l0)
  have t1: "(of_int (247000 - 1000) / 60000 :: rat) \<ge> of_int (snapshotStallMinutes exampleConfig)"
    by (simp add: nodes_exampleConfig)
  have t2: "\<not> (of_int (200000 - 1000) / 60000 :: rat) \<ge> of_int (snapshotStallMinutes exampleConfig)"
    by (simp add: nodes_exampleConfig)
  from mp [OF detectSnapshotsStopped_flow
      [where config = exampleConfig and c = 500 and ?st0.0 = "initialStallState 0"
         and ?glo1.0 = exampleOrdinal and mid = ?mid and ?glo2.0 = exampleOrdinal
         and ?t1.0 = 1000 and ?t2.0 = 247000 and ?toFixed1.0 = ?fmt,
         THEN conjunct2, THEN conjunct2] p] t1 ips
  have b: "?st = \<lparr>lastKnownOrdinal = 500, lastOrdinalChangeTime = 1000\<rparr>
    \<and> detected (fst (detectSnapshotsStopped exampleOrdinal ?fmt 247000 exampleConfig ?st))
    \<and> restartScope (fst (detectSnapshotsStopped exampleOrdinal ?fmt 247000 exampleConfig ?st))
        = ScopeFullMetagraph
    \<and> affectedLayers (fst (detectSnapshotsStopped exampleOrdinal ?fmt 247000 exampleConfig ?st))
        = Some [ml0, cl1, dl1]
    \<and> affectedNodes (fst (detectSnapshotsStopped exampleOrdinal ?fmt 247000 exampleConfig ?st))
        = Some [''10.0.0.1'', ''10.0.0.2'', ''10.0.0.3'']"
    by metis
  from mp [OF detectSnapshotsStopped_flow
      [where config = exampleConfig and c = 500 and ?st0.0 = "initialStallState 0"
         and ?glo1.0 = exampleOrdinal and mid = ?mid and ?glo2.0 = exampleOrdinal
         and ?t1.0 = 1000 and ?t2.0 = 200000 and ?toFixed1.0 = ?fmt,
         THEN conjunct2, THEN conjunct2] p] t2
  have c: "\<not> detected (fst (detectSnapshotsStopped exampleOrdinal ?fmt 200000 exampleConfig ?st))"
    by blast
  have "\<forall>n\<in>set (nodes exampleConfig). ?down (nc_ip n) (ports exampleConfig ml0) ml0 < 0"
    by simp
  with detectSnapshotsStopped_flow
      [where config = exampleConfig and glo = ?down and now = 247000
         and st = "\<lparr>lastKnownOrdinal = 500, lastOrdinalChangeTime = 1000\<rparr>"
         and ?toFixed1.0 = ?fmt, THEN conjunct1]
  have d: "\<not> detected (fst (detectSnapshotsStopped ?down ?fmt 247000 exampleConfig
                 \<lparr>lastKnownOrdinal = 500, lastOrdinalChangeTime = 1000\<rparr>))"
    by blast
  from a b c d show ?thesis by (intro conjI) blast+
qed

text \<open>
  C5. The watchdog's stall state does not keep the claim: its test is \<^verbatim>\<open>!==\<close>, so an
  ordinal below the recorded one overwrites it and restarts the clock. The detector starts
  at load time 0; at time 1000 node 2 reports ordinal 500, which is recorded; at time 61000
  only the lagging node 3 answers, with 499, and the state becomes 499 since 61000; at time
  247000 node 2 still reports 500, unchanged for 4.1 minutes against a threshold of 4, and
  no stall is reported: 500 is recorded anew, since 247000.
\<close>
theorem detectSnapshotsStopped_lowers_ordinal:
  "stallTicks (\<lambda>m. ''4.1'') exampleConfig [(exampleOrdinal, 1000)] (initialStallState 0)
     = \<lparr>lastKnownOrdinal = 500, lastOrdinalChangeTime = 1000\<rparr>
   \<and> stallTicks (\<lambda>m. ''4.1'') exampleConfig
        [(exampleOrdinal, 1000), (exampleOrdinalLagging, 61000)] (initialStallState 0)
     = \<lparr>lastKnownOrdinal = 499, lastOrdinalChangeTime = 61000\<rparr>
   \<and> detectSnapshotsStopped exampleOrdinal (\<lambda>m. ''4.1'') 247000 exampleConfig
        (stallTicks (\<lambda>m. ''4.1'') exampleConfig
           [(exampleOrdinal, 1000), (exampleOrdinalLagging, 61000)] (initialStallState 0))
     = (notStopped [], \<lparr>lastKnownOrdinal = 500, lastOrdinalChangeTime = 247000\<rparr>)"
  by (simp add: detectSnapshotsStopped_def firstOrdinal_examples initialStallState_def)

section \<open>One health check\<close>

lemma runConditions_step:
  "runConditions ex ((name, detect) # rest) w =
     (if restartPerformed ex detect w then ([name], afterCondition ex detect w)
      else (name # fst (runConditions ex rest (afterCondition ex detect w)),
            snd (runConditions ex rest (afterCondition ex detect w))))"
  by (auto simp: restartPerformed_def afterCondition_def split: prod.splits option.splits bool.splits)

text \<open>
  C1 (as amended). A health check calls the detectors in the order fork, stall,
  unhealthy nodes. It stops after a detector only when that detector reported a
  condition and the restart was performed; when the detector reports nothing, throws, or
  its restart is skipped, the next detector runs in the same health check.
\<close>
theorem runHealthCheck_order_and_stop:
  "runHealthCheck ex dF dS dU w =
     (if restartPerformed ex dF w then ([''ForkedCluster''], afterCondition ex dF w)
      else if restartPerformed ex dS (afterCondition ex dF w)
      then ([''ForkedCluster'', ''SnapshotsStopped''],
            afterCondition ex dS (afterCondition ex dF w))
      else ([''ForkedCluster'', ''SnapshotsStopped'', ''UnhealthyNodes''],
            afterCondition ex dU (afterCondition ex dS (afterCondition ex dF w))))"
  unfolding runHealthCheck_def runConditions_step by simp

text \<open>
  C1 as stated fails: with a forked cluster and an orchestrator that skips the restart,
  the fork detector reports a condition and the two other detectors still run.
\<close>
theorem runHealthCheck_continues_after_skip_counterexample:
  "detected (the (fst (exampleDetectForked (initialStallState 0))))
   \<and> fst (runHealthCheck exampleSkip exampleDetectForked exampleDetectStopped
            exampleDetectUnhealthy (initialStallState 0))
       = [''ForkedCluster'', ''SnapshotsStopped'', ''UnhealthyNodes'']"
proof -
  have d: "detected (the (fst (exampleDetectForked (initialStallState 0))))"
    by (simp add: exampleDetectForked_def detectForkedCluster_example)
  have np: "\<And>d w. \<not> restartPerformed exampleSkip d w"
    by (simp add: restartPerformed_def exampleSkip_def split: prod.splits option.splits)
  have "fst (runHealthCheck exampleSkip exampleDetectForked exampleDetectStopped
            exampleDetectUnhealthy (initialStallState 0))
       = [''ForkedCluster'', ''SnapshotsStopped'', ''UnhealthyNodes'']"
    unfolding runHealthCheck_def runConditions_step using np by simp
  with d show ?thesis by simp
qed

theorem runHealthCheck_order_and_stop_witness:
  "fst (runHealthCheck exampleRestart exampleDetectForked exampleDetectStopped
          exampleDetectUnhealthy (initialStallState 0)) = [''ForkedCluster'']
   \<and> fst (runHealthCheck exampleSkip exampleDetectForked exampleDetectStopped
          exampleDetectUnhealthy (initialStallState 0))
       = [''ForkedCluster'', ''SnapshotsStopped'', ''UnhealthyNodes'']"
proof -
  have p: "restartPerformed exampleRestart exampleDetectForked (initialStallState 0)"
    by (simp add: restartPerformed_def exampleRestart_def exampleDetectForked_def
          detectForkedCluster_example)
  have np: "\<And>d w. \<not> restartPerformed exampleSkip d w"
    by (simp add: restartPerformed_def exampleSkip_def split: prod.splits option.splits)
  from p runHealthCheck_order_and_stop
         [of exampleRestart exampleDetectForked exampleDetectStopped exampleDetectUnhealthy
             "initialStallState 0"]
  have a: "fst (runHealthCheck exampleRestart exampleDetectForked exampleDetectStopped
          exampleDetectUnhealthy (initialStallState 0)) = [''ForkedCluster'']" by simp
  from np runHealthCheck_order_and_stop
         [of exampleSkip exampleDetectForked exampleDetectStopped exampleDetectUnhealthy
             "initialStallState 0"]
  have b: "fst (runHealthCheck exampleSkip exampleDetectForked exampleDetectStopped
          exampleDetectUnhealthy (initialStallState 0))
       = [''ForkedCluster'', ''SnapshotsStopped'', ''UnhealthyNodes'']" by simp
  from a b show ?thesis by blast
qed

section \<open>The cooldown of the orchestrator\<close>

lemma runProcedure_all_succeed: "snd (runProcedure (\<lambda>c. True) cs) = None"
  by (induction cs) simp_all

text \<open>
  C7. A call of \<^verbatim>\<open>execute\<close> during the cooldown returns \<^verbatim>\<open>Skipped(cooldown)\<close> and leaves the
  orchestrator as it was. In particular, after a call that ran a procedure (restarted or
  failed) and finished at \<open>finish\<close>, a second call less than \<^verbatim>\<open>restartCooldownMinutes\<close>
  later is skipped, hands no command to the command port and records nothing.
\<close>
theorem execute_cooldown:
  "(inCooldown cfg now st \<longrightarrow> execute cfg run now finish event st = (Skipped cooldown, st))
   \<and> (execute cfg run now finish event st = (out, st') \<and> (out = Restarted \<or> (\<exists>c. out = Failed c))
        \<and> finish \<le> now2 \<and> now2 - finish < oc_restartCooldownMinutes cfg * 60000 \<longrightarrow>
      execute cfg run2 now2 finish2 event2 st' = (Skipped cooldown, st')
      \<and> invoked (snd (execute cfg run2 now2 finish2 event2 st')) = invoked st')"
proof -
  have skip: "\<And>c n s r f e. inCooldown c n s \<Longrightarrow> execute c r n f e s = (Skipped cooldown, s)"
    by (simp add: execute_def)
  have second: "execute cfg run2 now2 finish2 event2 st' = (Skipped cooldown, st')"
    if a: "execute cfg run now finish event st = (out, st')"
      and b: "out = Restarted \<or> (\<exists>c. out = Failed c)"
      and c: "now2 - finish < oc_restartCooldownMinutes cfg * 60000"
  proof -
    from a b have "\<exists>r rs. history st' = r # rs \<and> finishedAt r = finish"
      by (auto simp: execute_def Let_def split: if_splits option.splits)
    with c have "inCooldown cfg now2 st'" by (auto simp: inCooldown_def)
    then show ?thesis by (rule skip)
  qed
  from skip second show ?thesis by auto
qed

theorem execute_cooldown_witness:
  "fst (execute exampleOrchestratorConfig (\<lambda>c. True) 0 60000 exampleStallEvent newOrchestrator)
     = Restarted
   \<and> execute exampleOrchestratorConfig (\<lambda>c. True) 120000 180000 exampleStallEvent
       (snd (execute exampleOrchestratorConfig (\<lambda>c. True) 0 60000 exampleStallEvent newOrchestrator))
     = (Skipped cooldown,
        snd (execute exampleOrchestratorConfig (\<lambda>c. True) 0 60000 exampleStallEvent newOrchestrator))"
proof -
  let ?first = "execute exampleOrchestratorConfig (\<lambda>c. True) 0 60000 exampleStallEvent newOrchestrator"
  have r: "fst ?first = Restarted"
    by (simp add: execute_def inCooldown_def rateLimited_def newOrchestrator_def
          exampleOrchestratorConfig_def exampleStallEvent_def runProcedure_all_succeed Let_def)
  then have e: "?first = (Restarted, snd ?first)" by (metis prod.collapse)
  have t: "(60000 :: int) \<le> 120000
           \<and> (120000 :: int) - 60000 < oc_restartCooldownMinutes exampleOrchestratorConfig * 60000"
    by (simp add: exampleOrchestratorConfig_def)
  from e t execute_cooldown
         [where cfg = exampleOrchestratorConfig and now = 0 and st = newOrchestrator
            and run = "\<lambda>c. True" and finish = 60000 and event = exampleStallEvent
            and out = Restarted and st' = "snd ?first" and ?now2.0 = 120000
            and ?run2.0 = "\<lambda>c. True" and ?finish2.0 = 180000 and ?event2.0 = exampleStallEvent]
  have "execute exampleOrchestratorConfig (\<lambda>c. True) 120000 180000 exampleStallEvent (snd ?first)
          = (Skipped cooldown, snd ?first)" by blast
  with r show ?thesis by blast
qed

end
